theory Spec2Isabelle
  imports Complex_Main
begin

section \<open>Conventions of the embedding\<close>

text \<open>
  The checkout engine is embedded function by function. Go's \<open>float64\<close> amounts and rates
  are modelled by exact reals: rounding, overflow and the non-finite values are outside the
  model. Go's \<open>int\<close> is modelled by \<open>int\<close>, without the 64-bit bounds. Instants (\<open>time.Time\<close>) and durations
  (\<open>time.Duration\<close>) are integers counting nanoseconds, instants from Go's zero time, so
  that \<open>IsZero\<close> is equality with 0. Pointers to objects are modelled by the values they
  point to; a method that mutates its receiver returns the updated receiver.

  Text produced by \<open>fmt.Sprintf\<close> that is only reported (error messages, result messages)
  is kept as the format string together with its arguments. The one place where the
  program compares rendered text (the split strategy) uses the rendering \<open>Sprintf_2f\<close>.
\<close>

section \<open>pkg/errors\<close>

datatype fmt_arg = FString string | FInt int | FFloat real | FDuration int

datatype message = Sprintf string "fmt_arg list"

abbreviation Text :: "string \<Rightarrow> message" where
  "Text s \<equiv> Sprintf s []"

text \<open>
  An error value is an \<open>*AppError\<close> (code, message, wrapped error or nil) or an error built
  by \<open>fmt.Errorf\<close>/\<open>errors.New\<close>/the context package (its text and, for \<open>%w\<close>, the wrapped
  error). \<open>RuntimePanic\<close> stands for a Go run-time panic: it is not an error value, it
  unwinds through every caller.
\<close>

datatype error =
    AppError string message "error option"
  | GoError message "error option"
  | RuntimePanic message

abbreviation ErrCodeValidation :: string where "ErrCodeValidation \<equiv> ''VALIDATION_ERROR''"
abbreviation ErrCodeNotFound :: string where "ErrCodeNotFound \<equiv> ''NOT_FOUND''"
abbreviation ErrCodeAlreadyExists :: string where "ErrCodeAlreadyExists \<equiv> ''ALREADY_EXISTS''"
abbreviation ErrCodePaymentFailed :: string where "ErrCodePaymentFailed \<equiv> ''PAYMENT_FAILED''"
abbreviation ErrCodeInvalidPayment :: string where "ErrCodeInvalidPayment \<equiv> ''INVALID_PAYMENT''"
abbreviation ErrCodeFraudDetected :: string where "ErrCodeFraudDetected \<equiv> ''FRAUD_DETECTED''"
abbreviation ErrCodeInventoryError :: string where "ErrCodeInventoryError \<equiv> ''INVENTORY_ERROR''"
abbreviation ErrCodeTimeout :: string where "ErrCodeTimeout \<equiv> ''TIMEOUT''"

definition New :: "string \<Rightarrow> message \<Rightarrow> error" where
  "New code msg = AppError code msg None"

definition Wrap :: "error \<Rightarrow> string \<Rightarrow> message \<Rightarrow> error" where
  "Wrap err code msg = AppError code msg (Some err)"

definition NewValidationError :: "message \<Rightarrow> error" where
  "NewValidationError msg = New ErrCodeValidation msg"

definition NewNotFoundError :: "string \<Rightarrow> error" where
  "NewNotFoundError resource = New ErrCodeNotFound (Sprintf ''%s not found'' [FString resource])"

definition NewAlreadyExistsError :: "string \<Rightarrow> error" where
  "NewAlreadyExistsError resource =
     New ErrCodeAlreadyExists (Sprintf ''%s already exists'' [FString resource])"

definition NewInvalidPaymentError :: "message \<Rightarrow> error" where
  "NewInvalidPaymentError msg = New ErrCodeInvalidPayment msg"

definition NewFraudDetectedError :: "message \<Rightarrow> error" where
  "NewFraudDetectedError msg = New ErrCodeFraudDetected msg"

definition NewInventoryError :: "message \<Rightarrow> error" where
  "NewInventoryError msg = New ErrCodeInventoryError msg"

text \<open>
  \<open>errors.As(err, &appErr)\<close> with a target of type \<open>*AppError\<close>: the first error of the
  chain that is an \<open>*AppError\<close>, following \<open>Unwrap\<close>.
\<close>

fun As_AppError :: "error \<Rightarrow> error option" where
  "As_AppError (AppError code msg inner) = Some (AppError code msg inner)"
| "As_AppError (GoError msg None) = None"
| "As_AppError (GoError msg (Some inner)) = As_AppError inner"
| "As_AppError (RuntimePanic msg) = None"

definition IsErrorCode :: "error \<Rightarrow> string \<Rightarrow> bool" where
  "IsErrorCode err code =
     (case As_AppError err of
        Some (AppError c msg inner) \<Rightarrow> c = code
      | _ \<Rightarrow> False)"

section \<open>Payment results and configuration records\<close>

datatype "value" =
    VString string
  | VInt int
  | VFloat real
  | VStrings "string list"
  | VTime int
  | VMaps "(string \<times> value) list list"

record PaymentResult =
  Success :: bool
  TransactionID :: string
  Amount :: real
  OriginalAmount :: real
  ProcessedAmount :: real
  Currency :: string
  PaymentMethod :: string
  Message :: message
  Metadata :: "string \<rightharpoonup> value"
  AppliedDecorators :: "string list"

record DiscountConfig =
  DiscountType :: string
  DiscountValue :: real
  MinAmount :: real
  MaxDiscount :: real
  ExpiryDate :: int
  DiscountCode :: string

record CashbackConfig =
  Tier1Threshold :: real
  Tier1Percentage :: real
  Tier2Percentage :: real

record FraudDetectionConfig =
  MaxRiskScore :: int
  VelocityCheckWindow :: int
  MaxTransactionsPerWindow :: int
  CustomerID :: string

record TaxConfig =
  Region :: string
  TaxRates :: "string \<rightharpoonup> real"
  DefaultRate :: real

record LoyaltyPointsConfig =
  AvailablePoints :: int
  PointsToRedeem :: int
  PointsToCurrencyRatio :: real
  MaxRedemptionPercentage :: real

text \<open>
  The Payment capability: the three instruments and the five decorators, each decorator
  owning its wrapped payment. A decorator keeps the configuration it was built from; the
  tax decorator also keeps the rate it looked up, the fraud decorator its transaction
  history.
\<close>

datatype payment =
    CreditCardPayment string string string string
  | PayPalPayment string string
  | CryptoPayment string string
  | DiscountDecorator payment DiscountConfig
  | CashbackDecorator payment CashbackConfig
  | FraudDetectionDecorator payment FraudDetectionConfig "string \<rightharpoonup> int list"
  | TaxDecorator payment TaxConfig real
  | LoyaltyPointsDecorator payment LoyaltyPointsConfig

section \<open>internal/observer: events\<close>

datatype EventType =
    EventPaymentStarted
  | EventPaymentSuccess
  | EventPaymentFailed
  | EventRefundIssued

record Event =
  evt_Type :: EventType
  evt_TransactionID :: string
  evt_CustomerID :: string
  evt_Amount :: real
  evt_PaymentMethod :: string
  evt_Result :: "PaymentResult option"
  evt_Error :: "error option"
  evt_Metadata :: "string \<rightharpoonup> value"
  evt_Timestamp :: int

section \<open>The environment: clock, randomness, identifiers, contexts\<close>

text \<open>
  \<open>now\<close> is the clock read by \<open>time.Now\<close> and advanced by \<open>time.Sleep\<close>;
  \<open>rand_src\<close> and \<open>id_src\<close> are the streams behind \<open>rand.Intn\<close> and \<open>domain.NewID\<close>.
  \<open>emitted\<close> lists the events handed to the event subject, in the order of the calls;
  their delivery to the observers is asynchronous and not modelled.
  \<open>invocations\<close> is a ghost record of every \<open>Process\<close> call (receiver and amount), used
  only to state which payments are invoked and how often.
\<close>

record world =
  now :: int
  rand_src :: "nat \<Rightarrow> nat"
  rand_pos :: nat
  id_src :: "nat \<Rightarrow> string"
  id_pos :: nat
  emitted :: "Event list"
  invocations :: "(payment \<times> real) list"

record Context =
  cancelled :: bool
  deadline :: "int option"

abbreviation Millisecond :: int where "Millisecond \<equiv> 1000000"
abbreviation Hour :: int where "Hour \<equiv> 3600000000000"

definition time_Sleep :: "int \<Rightarrow> world \<Rightarrow> world" where
  "time_Sleep d w = w\<lparr>now := now w + (if 0 < d then d else 0)\<rparr>"

definition IsZero :: "int \<Rightarrow> bool" where
  "IsZero t = (t = 0)"

definition rand_Intn :: "nat \<Rightarrow> world \<Rightarrow> int \<times> world" where
  "rand_Intn n w = (int (rand_src w (rand_pos w) mod n), w\<lparr>rand_pos := Suc (rand_pos w)\<rparr>)"

definition NewID :: "world \<Rightarrow> string \<times> world" where
  "NewID w = (id_src w (id_pos w), w\<lparr>id_pos := Suc (id_pos w)\<rparr>)"

definition ctx_Err :: "Context \<Rightarrow> world \<Rightarrow> error option" where
  "ctx_Err ctx w =
     (if cancelled ctx then Some (GoError (Text ''context canceled'') None)
      else case deadline ctx of
             None \<Rightarrow> None
           | Some d \<Rightarrow> if d \<le> now w then Some (GoError (Text ''context deadline exceeded'') None)
                       else None)"

definition WithTimeout :: "Context \<Rightarrow> int \<Rightarrow> world \<Rightarrow> Context" where
  "WithTimeout parent timeout w =
     parent\<lparr>deadline := (case deadline parent of
                           None \<Rightarrow> Some (now w + timeout)
                         | Some d \<Rightarrow> Some (min d (now w + timeout)))\<rparr>"

definition invoked :: "payment \<Rightarrow> real \<Rightarrow> world \<Rightarrow> world" where
  "invoked p amount w = w\<lparr>invocations := invocations w @ [(p, amount)]\<rparr>"

section \<open>pkg/validator: the amount validator\<close>

definition AmountValidator_Validate :: "real \<Rightarrow> real \<Rightarrow> real \<Rightarrow> error option" where
  "AmountValidator_Validate amount minimum maximum =
     (if amount < minimum then
        Some (GoError (Sprintf ''amount %.2f is below minimum %.2f''
                         [FFloat amount, FFloat minimum]) None)
      else if amount > maximum then
        Some (GoError (Sprintf ''amount %.2f exceeds maximum %.2f''
                         [FFloat amount, FFloat maximum]) None)
      else if amount < 0 then
        Some (GoError (Text ''amount cannot be negative'') None)
      else None)"

section \<open>internal/payment: the instruments\<close>

definition getLastFourDigits :: "string \<Rightarrow> string" where
  "getLastFourDigits cardNumber =
     (if length cardNumber < 4 then ''****''
      else ''****'' @ drop (length cardNumber - 4) cardNumber)"

definition maskWalletAddress :: "string \<Rightarrow> string" where
  "maskWalletAddress walletAddress =
     (if length walletAddress < 10 then ''****''
      else take 6 walletAddress @ ''****'' @ drop (length walletAddress - 4) walletAddress)"

definition CreditCardPayment_Process ::
  "string \<Rightarrow> string \<Rightarrow> Context \<Rightarrow> real \<Rightarrow> world \<Rightarrow> (error + PaymentResult) \<times> world" where
  "CreditCardPayment_Process cardNumber cardHolder ctx amount w =
     (case ctx_Err ctx w of
        Some cerr \<Rightarrow> (Inl (Wrap cerr ErrCodeTimeout (Text ''payment context expired'')), w)
      | None \<Rightarrow>
          (case AmountValidator_Validate amount 1 10000 of
             Some verr \<Rightarrow> (Inl (Wrap verr ErrCodeValidation (Text ''invalid payment amount'')), w)
           | None \<Rightarrow>
               (let w1 = time_Sleep (100 * Millisecond) w;
                    (transactionID, w2) = NewID w1
                in (Inr \<lparr>Success = True,
                          TransactionID = transactionID,
                          Amount = amount,
                          OriginalAmount = amount,
                          ProcessedAmount = amount,
                          Currency = ''USD'',
                          PaymentMethod = ''credit_card'',
                          Message = Text ''Payment processed successfully'',
                          Metadata = [''card_holder'' \<mapsto> VString cardHolder,
                                      ''last_4_digits'' \<mapsto> VString (getLastFourDigits cardNumber),
                                      ''processed_at'' \<mapsto> VTime (now w2)],
                          AppliedDecorators = []\<rparr>, w2))))"

definition PayPalPayment_Process ::
  "string \<Rightarrow> Context \<Rightarrow> real \<Rightarrow> world \<Rightarrow> (error + PaymentResult) \<times> world" where
  "PayPalPayment_Process email ctx amount w =
     (case ctx_Err ctx w of
        Some cerr \<Rightarrow> (Inl (Wrap cerr ErrCodeTimeout (Text ''payment context expired'')), w)
      | None \<Rightarrow>
          (case AmountValidator_Validate amount 1 5000 of
             Some verr \<Rightarrow> (Inl (Wrap verr ErrCodeValidation (Text ''invalid payment amount'')), w)
           | None \<Rightarrow>
               (let w1 = time_Sleep (150 * Millisecond) w;
                    (transactionID, w2) = NewID w1
                in (Inr \<lparr>Success = True,
                          TransactionID = transactionID,
                          Amount = amount,
                          OriginalAmount = amount,
                          ProcessedAmount = amount,
                          Currency = ''USD'',
                          PaymentMethod = ''paypal'',
                          Message = Text ''PayPal payment processed successfully'',
                          Metadata = [''paypal_email'' \<mapsto> VString email,
                                      ''processed_at'' \<mapsto> VTime (now w2)],
                          AppliedDecorators = []\<rparr>, w2))))"

text \<open>
  The crypto instrument takes the first 16 characters of the fresh transaction id; the ids
  of \<open>domain.NewID\<close> are UUID strings of 36 characters, so the slice is always in range.
\<close>

definition CryptoPayment_Process ::
  "string \<Rightarrow> string \<Rightarrow> Context \<Rightarrow> real \<Rightarrow> world \<Rightarrow> (error + PaymentResult) \<times> world" where
  "CryptoPayment_Process walletAddress cryptoType ctx amount w =
     (case ctx_Err ctx w of
        Some cerr \<Rightarrow> (Inl (Wrap cerr ErrCodeTimeout (Text ''payment context expired'')), w)
      | None \<Rightarrow>
          (case AmountValidator_Validate amount 10 50000 of
             Some verr \<Rightarrow> (Inl (Wrap verr ErrCodeValidation (Text ''invalid payment amount'')), w)
           | None \<Rightarrow>
               (let w1 = time_Sleep (200 * Millisecond) w;
                    (transactionID, w2) = NewID w1
                in (Inr \<lparr>Success = True,
                          TransactionID = transactionID,
                          Amount = amount,
                          OriginalAmount = amount,
                          ProcessedAmount = amount,
                          Currency = cryptoType,
                          PaymentMethod = ''crypto'',
                          Message = Text ''Cryptocurrency payment processed successfully'',
                          Metadata = [''crypto_type'' \<mapsto> VString cryptoType,
                                      ''wallet_address'' \<mapsto> VString (maskWalletAddress walletAddress),
                                      ''blockchain_tx'' \<mapsto> VString (''0x'' @ take 16 transactionID),
                                      ''processed_at'' \<mapsto> VTime (now w2)],
                          AppliedDecorators = []\<rparr>, w2))))"

section \<open>internal/decorator\<close>

text \<open>
  For each decorator, the part of \<open>Process\<close> before the call of the wrapped payment and
  the part after it are named: \<open>Discount_finalAmount\<close>, \<open>Tax_totalAmount\<close> and
  \<open>Loyalty_finalAmount\<close> are the amounts forwarded, \<open>Discount_result\<close>, \<open>Tax_result\<close>,
  \<open>Cashback_result\<close>, \<open>Fraud_result\<close> and \<open>Loyalty_result\<close> the changes made to the
  result of the wrapped payment. \<open>Process\<close> itself follows, over the whole chain.
\<close>

subsection \<open>Discount\<close>

definition NewDiscountDecorator :: "payment \<Rightarrow> DiscountConfig \<Rightarrow> error + payment" where
  "NewDiscountDecorator wrapped config =
     (if DiscountValue config \<le> 0 then
        Inl (NewValidationError (Text ''discount value must be positive''))
      else if DiscountType config = ''percentage'' \<and> DiscountValue config > 100 then
        Inl (NewValidationError (Text ''percentage discount cannot exceed 100%''))
      else Inr (DiscountDecorator wrapped config))"

definition Discount_expired :: "DiscountConfig \<Rightarrow> world \<Rightarrow> bool" where
  "Discount_expired d w = (\<not> IsZero (ExpiryDate d) \<and> now w > ExpiryDate d)"

definition calculateDiscount :: "DiscountConfig \<Rightarrow> real \<Rightarrow> real" where
  "calculateDiscount d amount =
     (let discount = (if DiscountType d = ''percentage'' then amount * (DiscountValue d / 100)
                      else DiscountValue d);
          discount = (if MaxDiscount d > 0 \<and> discount > MaxDiscount d then MaxDiscount d
                      else discount);
          discount = (if discount > amount then amount else discount)
      in discount)"

definition Discount_finalAmount :: "DiscountConfig \<Rightarrow> real \<Rightarrow> real" where
  "Discount_finalAmount d amount =
     (let finalAmount = amount - calculateDiscount d amount
      in if finalAmount < 0 then 0 else finalAmount)"

definition Discount_result :: "DiscountConfig \<Rightarrow> real \<Rightarrow> PaymentResult \<Rightarrow> PaymentResult" where
  "Discount_result d amount result =
     result\<lparr>OriginalAmount := amount,
            ProcessedAmount := Discount_finalAmount d amount,
            Amount := Discount_finalAmount d amount,
            AppliedDecorators := AppliedDecorators result @ [''discount''],
            Metadata := (Metadata result)
               (''discount_type'' \<mapsto> VString (DiscountType d),
                ''discount_value'' \<mapsto> VFloat (DiscountValue d),
                ''discount_amount'' \<mapsto> VFloat (calculateDiscount d amount),
                ''discount_code'' \<mapsto> VString (DiscountCode d))\<rparr>"

subsection \<open>Tax\<close>

definition NewTaxDecorator :: "payment \<Rightarrow> TaxConfig \<Rightarrow> payment" where
  "NewTaxDecorator wrapped config =
     TaxDecorator wrapped config
       (case TaxRates config (Region config) of
          Some rate \<Rightarrow> rate
        | None \<Rightarrow> DefaultRate config)"

definition Tax_totalAmount :: "real \<Rightarrow> real \<Rightarrow> real" where
  "Tax_totalAmount taxRate amount = amount + amount * (taxRate / 100)"

definition Tax_result :: "TaxConfig \<Rightarrow> real \<Rightarrow> real \<Rightarrow> PaymentResult \<Rightarrow> PaymentResult" where
  "Tax_result t taxRate amount result =
     (let result = (if OriginalAmount result = 0 then result\<lparr>OriginalAmount := amount\<rparr>
                    else result)
      in result\<lparr>ProcessedAmount := Tax_totalAmount taxRate amount,
                Amount := Tax_totalAmount taxRate amount,
                AppliedDecorators := AppliedDecorators result @ [''tax''],
                Metadata := (Metadata result)
                   (''subtotal'' \<mapsto> VFloat amount,
                    ''tax_amount'' \<mapsto> VFloat (amount * (taxRate / 100)),
                    ''tax_rate'' \<mapsto> VFloat taxRate,
                    ''tax_region'' \<mapsto> VString (Region t))\<rparr>)"

subsection \<open>Cashback\<close>

definition getCashbackPercentage :: "CashbackConfig \<Rightarrow> real \<Rightarrow> real" where
  "getCashbackPercentage c amount =
     (if amount \<ge> Tier1Threshold c then Tier2Percentage c else Tier1Percentage c)"

definition calculateCashback :: "CashbackConfig \<Rightarrow> real \<Rightarrow> real" where
  "calculateCashback c amount = amount * (getCashbackPercentage c amount / 100)"

definition Cashback_result :: "CashbackConfig \<Rightarrow> real \<Rightarrow> PaymentResult \<Rightarrow> PaymentResult" where
  "Cashback_result c amount result =
     result\<lparr>AppliedDecorators := AppliedDecorators result @ [''cashback''],
            Metadata := (Metadata result)
               (''cashback_amount'' \<mapsto> VFloat (calculateCashback c amount),
                ''cashback_percentage'' \<mapsto> VFloat (getCashbackPercentage c amount))\<rparr>"

subsection \<open>Fraud detection\<close>

definition NewFraudDetectionDecorator :: "payment \<Rightarrow> FraudDetectionConfig \<Rightarrow> payment" where
  "NewFraudDetectionDecorator wrapped config = FraudDetectionDecorator wrapped config Map.empty"

definition calculateRiskScore :: "real \<Rightarrow> world \<Rightarrow> int \<times> world" where
  "calculateRiskScore amount w =
     (let score = 0;
          score = (if amount > 1000 then score + 20 else score);
          score = (if amount > 5000 then score + 30 else score);
          (r, w') = rand_Intn 30 w
      in (score + r, w'))"

definition velocityCheck ::
  "FraudDetectionConfig \<Rightarrow> (string \<rightharpoonup> int list) \<Rightarrow> world \<Rightarrow> error option" where
  "velocityCheck f history w =
     (case history ''default'' of
        None \<Rightarrow> None
      | Some transactions \<Rightarrow>
          (let cutoff = now w - VelocityCheckWindow f;
               recent = filter (\<lambda>tx. tx > cutoff) transactions
           in if int (length recent) \<ge> MaxTransactionsPerWindow f then
                Some (NewFraudDetectedError
                        (Sprintf ''transaction velocity exceeded: %d transactions in %v''
                           [FInt (int (length recent)), FDuration (VelocityCheckWindow f)]))
              else None))"

definition geolocationCheck :: "world \<Rightarrow> error option \<times> world" where
  "geolocationCheck w =
     (let (r, w') = rand_Intn 100 w
      in if r < 5 then (Some (NewFraudDetectedError (Text ''geolocation validation failed'')), w')
         else (None, w'))"

definition recordTransaction :: "(string \<rightharpoonup> int list) \<Rightarrow> world \<Rightarrow> (string \<rightharpoonup> int list)" where
  "recordTransaction history w =
     (let transactions = (case history ''default'' of None \<Rightarrow> [] | Some ts \<Rightarrow> ts)
      in history(''default'' \<mapsto> transactions @ [now w]))"

definition Fraud_result :: "int \<Rightarrow> PaymentResult \<Rightarrow> PaymentResult" where
  "Fraud_result riskScore result =
     result\<lparr>AppliedDecorators := AppliedDecorators result @ [''fraud_detection''],
            Metadata := (Metadata result)
               (''fraud_risk_score'' \<mapsto> VInt riskScore,
                ''fraud_checks_passed'' \<mapsto>
                   VStrings [''risk_score'', ''velocity_check'', ''geolocation_check''])\<rparr>"

subsection \<open>Loyalty points\<close>

definition NewLoyaltyPointsDecorator :: "payment \<Rightarrow> LoyaltyPointsConfig \<Rightarrow> error + payment" where
  "NewLoyaltyPointsDecorator wrapped config =
     (if PointsToRedeem config > AvailablePoints config then
        Inl (NewValidationError (Text ''insufficient loyalty points''))
      else if PointsToRedeem config < 0 then
        Inl (NewValidationError (Text ''points to redeem cannot be negative''))
      else Inr (LoyaltyPointsDecorator wrapped config))"

text \<open>Go's conversion \<open>int(amount)\<close> truncates towards zero.\<close>

definition int_of_float :: "real \<Rightarrow> int" where
  "int_of_float x = (if 0 \<le> x then \<lfloor>x\<rfloor> else \<lceil>x\<rceil>)"

text \<open>
  The discount is the quotient of the points by the configured ratio. With a ratio of 0
  the quotient is not finite in Go; the model covers the non-zero ratios.
\<close>

definition Loyalty_discount :: "LoyaltyPointsConfig \<Rightarrow> real" where
  "Loyalty_discount l = real_of_int (PointsToRedeem l) / PointsToCurrencyRatio l"

definition Loyalty_maxRedemption :: "LoyaltyPointsConfig \<Rightarrow> real \<Rightarrow> real" where
  "Loyalty_maxRedemption l amount = amount * (MaxRedemptionPercentage l / 100)"

definition Loyalty_finalAmount :: "LoyaltyPointsConfig \<Rightarrow> real \<Rightarrow> real" where
  "Loyalty_finalAmount l amount =
     (let finalAmount = amount - Loyalty_discount l
      in if finalAmount < 0 then 0 else finalAmount)"

definition Loyalty_result :: "LoyaltyPointsConfig \<Rightarrow> real \<Rightarrow> PaymentResult \<Rightarrow> PaymentResult" where
  "Loyalty_result l amount result =
     (let pointsEarned = int_of_float amount;
          result = (if OriginalAmount result = 0 then result\<lparr>OriginalAmount := amount\<rparr>
                    else result)
      in result\<lparr>ProcessedAmount := Loyalty_finalAmount l amount,
                Amount := Loyalty_finalAmount l amount,
                AppliedDecorators := AppliedDecorators result @ [''loyalty_points''],
                Metadata := (Metadata result)
                   (''loyalty_points_redeemed'' \<mapsto> VInt (PointsToRedeem l),
                    ''loyalty_points_earned'' \<mapsto> VInt pointsEarned,
                    ''loyalty_discount'' \<mapsto> VFloat (Loyalty_discount l),
                    ''loyalty_balance_after'' \<mapsto>
                       VInt (AvailablePoints l - PointsToRedeem l + pointsEarned))\<rparr>)"

subsection \<open>Process, over the whole chain\<close>

text \<open>
  \<open>Process p ctx amount w\<close> returns the outcome, the receiver after the call and the
  environment after the call. Every call first records itself in \<open>invocations\<close>.
\<close>

fun Process ::
  "payment \<Rightarrow> Context \<Rightarrow> real \<Rightarrow> world \<Rightarrow> (error + PaymentResult) \<times> payment \<times> world" where
  "Process (CreditCardPayment cardNumber cardHolder expiryDate cvv) ctx amount w0 =
     (let self = CreditCardPayment cardNumber cardHolder expiryDate cvv;
          (res, w) = CreditCardPayment_Process cardNumber cardHolder ctx amount (invoked self amount w0)
      in (res, self, w))"
| "Process (PayPalPayment email password) ctx amount w0 =
     (let self = PayPalPayment email password;
          (res, w) = PayPalPayment_Process email ctx amount (invoked self amount w0)
      in (res, self, w))"
| "Process (CryptoPayment walletAddress cryptoType) ctx amount w0 =
     (let self = CryptoPayment walletAddress cryptoType;
          (res, w) = CryptoPayment_Process walletAddress cryptoType ctx amount (invoked self amount w0)
      in (res, self, w))"
| "Process (DiscountDecorator wrapped d) ctx amount w0 =
     (let w = invoked (DiscountDecorator wrapped d) amount w0 in
      if Discount_expired d w then
        (Inl (NewValidationError (Text ''discount code has expired'')), DiscountDecorator wrapped d, w)
      else if amount < MinAmount d then
        (Inl (NewValidationError
                (Sprintf ''minimum amount for discount is $%.2f'' [FFloat (MinAmount d)])),
         DiscountDecorator wrapped d, w)
      else
        (case Process wrapped ctx (Discount_finalAmount d amount) w of
           (Inl err, wrapped', w') \<Rightarrow> (Inl err, DiscountDecorator wrapped' d, w')
         | (Inr result, wrapped', w') \<Rightarrow>
             (Inr (Discount_result d amount result), DiscountDecorator wrapped' d, w')))"
| "Process (TaxDecorator wrapped t taxRate) ctx amount w0 =
     (let w = invoked (TaxDecorator wrapped t taxRate) amount w0 in
      case Process wrapped ctx (Tax_totalAmount taxRate amount) w of
        (Inl err, wrapped', w') \<Rightarrow> (Inl err, TaxDecorator wrapped' t taxRate, w')
      | (Inr result, wrapped', w') \<Rightarrow>
          (Inr (Tax_result t taxRate amount result), TaxDecorator wrapped' t taxRate, w'))"
| "Process (CashbackDecorator wrapped c) ctx amount w0 =
     (let w = invoked (CashbackDecorator wrapped c) amount w0 in
      case Process wrapped ctx amount w of
        (Inl err, wrapped', w') \<Rightarrow> (Inl err, CashbackDecorator wrapped' c, w')
      | (Inr result, wrapped', w') \<Rightarrow>
          (Inr (Cashback_result c amount result), CashbackDecorator wrapped' c, w'))"
| "Process (FraudDetectionDecorator wrapped f history) ctx amount w0 =
     (let self = FraudDetectionDecorator wrapped f history;
          w = invoked self amount w0;
          (riskScore, w1) = calculateRiskScore amount w
      in if riskScore > MaxRiskScore f then
           (Inl (NewFraudDetectedError
                   (Sprintf ''transaction blocked: high fraud risk (score: %d)'' [FInt riskScore])),
            self, w1)
         else
           (case velocityCheck f history w1 of
              Some err \<Rightarrow> (Inl err, self, w1)
            | None \<Rightarrow>
                (case geolocationCheck w1 of
                   (Some err, w2) \<Rightarrow> (Inl err, self, w2)
                 | (None, w2) \<Rightarrow>
                     (case Process wrapped ctx amount w2 of
                        (Inl err, wrapped', w') \<Rightarrow>
                          (Inl err, FraudDetectionDecorator wrapped' f history, w')
                      | (Inr result, wrapped', w') \<Rightarrow>
                          (Inr (Fraud_result riskScore result),
                           FraudDetectionDecorator wrapped' f (recordTransaction history w'), w')))))"
| "Process (LoyaltyPointsDecorator wrapped l) ctx amount w0 =
     (let w = invoked (LoyaltyPointsDecorator wrapped l) amount w0 in
      if Loyalty_discount l > Loyalty_maxRedemption l amount then
        (Inl (NewValidationError
                (Sprintf ''loyalty points redemption exceeds maximum (%.2f%% of purchase)''
                   [FFloat (MaxRedemptionPercentage l)])),
         LoyaltyPointsDecorator wrapped l, w)
      else
        (case Process wrapped ctx (Loyalty_finalAmount l amount) w of
           (Inl err, wrapped', w') \<Rightarrow> (Inl err, LoyaltyPointsDecorator wrapped' l, w')
         | (Inr result, wrapped', w') \<Rightarrow>
             (Inr (Loyalty_result l amount result), LoyaltyPointsDecorator wrapped' l, w')))"

section \<open>Rendering \<open>%.2f\<close>\<close>

text \<open>
  \<open>fmt.Sprintf("%.2f", x)\<close>: the sign, the integer part and two decimals of \<open>x\<close> rounded
  to the nearest hundredth, ties to even.
\<close>

definition round_half_even :: "real \<Rightarrow> int" where
  "round_half_even x =
     (let f = \<lfloor>x\<rfloor>; r = x - of_int f
      in if r < 1 / 2 then f
         else if r > 1 / 2 then f + 1
         else if even f then f else f + 1)"

definition digit_char :: "nat \<Rightarrow> char" where
  "digit_char n = ''0123456789'' ! (n mod 10)"

function Itoa :: "nat \<Rightarrow> string" where
  "Itoa n = (if n < 10 then [digit_char n] else Itoa (n div 10) @ [digit_char n])"
  by pat_completeness auto
termination
  by (relation "measure id") auto

declare Itoa.simps [simp del]

definition Sprintf_2f :: "real \<Rightarrow> string" where
  "Sprintf_2f x =
     (let m = nat (round_half_even (\<bar>x\<bar> * 100))
      in (if x < 0 then ''-'' else []) @ Itoa (m div 100) @ ''.'' @
         [digit_char (m div 10), digit_char m])"

section \<open>internal/strategy\<close>

record SplitPaymentItem =
  item_Payment :: payment
  item_Amount :: real

record DeferredPaymentInstallment =
  InstallmentNumber :: int
  inst_Amount :: real
  DueDate :: string
  Status :: string

record DeferredPaymentSchedule =
  sched_ID :: string
  TotalAmount :: real
  Installments :: int
  InterestRate :: real
  Payments :: "DeferredPaymentInstallment list"

datatype strategy =
    InstantPaymentStrategy real real
  | DeferredPaymentStrategy real real int real
  | SplitPaymentStrategy "SplitPaymentItem list"

subsection \<open>Instant\<close>

definition Instant_Execute ::
  "real \<Rightarrow> real \<Rightarrow> Context \<Rightarrow> payment \<Rightarrow> real \<Rightarrow> world
     \<Rightarrow> (error + PaymentResult) \<times> payment \<times> world" where
  "Instant_Execute minAmount maxAmount ctx payment amount w =
     (case AmountValidator_Validate amount minAmount maxAmount of
        Some err \<Rightarrow> (Inl err, payment, w)
      | None \<Rightarrow>
          (case Process payment ctx amount w of
             (Inl err, payment', w') \<Rightarrow>
               (Inl (Wrap err ErrCodePaymentFailed (Text ''instant payment processing failed'')),
                payment', w')
           | (Inr result, payment', w') \<Rightarrow>
               (Inr (result\<lparr>Metadata := (Metadata result)
                              (''payment_strategy'' \<mapsto> VString ''instant'')\<rparr>),
                payment', w')))"

subsection \<open>Deferred\<close>

text \<open>
  \<open>CreateDeferredSchedule\<close> allocates the slice of installments with capacity
  \<open>installments\<close>: a negative capacity panics.
\<close>

definition CreateDeferredSchedule ::
  "real \<Rightarrow> int \<Rightarrow> real \<Rightarrow> world \<Rightarrow> (error + DeferredPaymentSchedule) \<times> world" where
  "CreateDeferredSchedule amount installments interestRate w =
     (let (newid, w') = NewID w in
      if installments < 0 then (Inl (RuntimePanic (Text ''makeslice: cap out of range'')), w')
      else
        (let totalWithInterest = amount * (1 + interestRate / 100);
             installmentAmount = totalWithInterest / real_of_int installments
         in (Inr \<lparr>sched_ID = newid,
                   TotalAmount = amount,
                   Installments = installments,
                   InterestRate = interestRate,
                   Payments = map (\<lambda>i. \<lparr>InstallmentNumber = i + 1,
                                           inst_Amount = installmentAmount,
                                           DueDate = [],
                                           Status = ''pending''\<rparr>)
                                  [0..installments - 1]\<rparr>, w')))"

definition Deferred_result ::
  "DeferredPaymentSchedule \<Rightarrow> int \<Rightarrow> real \<Rightarrow> real \<Rightarrow> real \<Rightarrow> PaymentResult \<Rightarrow> PaymentResult"
  where
  "Deferred_result schedule installments interestRate amount firstInstallment result =
     result\<lparr>Metadata := (Metadata result)
               (''payment_strategy'' \<mapsto> VString ''deferred'',
                ''schedule_id'' \<mapsto> VString (sched_ID schedule),
                ''total_amount'' \<mapsto> VFloat (TotalAmount schedule),
                ''installments'' \<mapsto> VInt installments,
                ''interest_rate'' \<mapsto> VFloat interestRate,
                ''first_installment'' \<mapsto> VFloat firstInstallment,
                ''remaining_installments'' \<mapsto> VInt (installments - 1)),
            OriginalAmount := amount,
            Amount := firstInstallment,
            ProcessedAmount := firstInstallment\<rparr>"

text \<open>\<open>schedule.Payments[0]\<close> panics when the schedule has no installment.\<close>

definition Deferred_Execute ::
  "real \<Rightarrow> real \<Rightarrow> int \<Rightarrow> real \<Rightarrow> Context \<Rightarrow> payment \<Rightarrow> real \<Rightarrow> world
     \<Rightarrow> (error + PaymentResult) \<times> payment \<times> world" where
  "Deferred_Execute minAmount maxAmount installments interestRate ctx payment amount w =
     (case AmountValidator_Validate amount minAmount maxAmount of
        Some err \<Rightarrow> (Inl err, payment, w)
      | None \<Rightarrow>
          (case CreateDeferredSchedule amount installments interestRate w of
             (Inl panic, w1) \<Rightarrow> (Inl panic, payment, w1)
           | (Inr schedule, w1) \<Rightarrow>
               (case Payments schedule of
                  [] \<Rightarrow> (Inl (RuntimePanic (Text ''index out of range [0] with length 0'')),
                         payment, w1)
                | first # rest \<Rightarrow>
                    (let firstInstallment = inst_Amount first in
                     case Process payment ctx firstInstallment w1 of
                       (Inl err, payment', w') \<Rightarrow>
                         (Inl (Wrap err ErrCodePaymentFailed
                                 (Text ''deferred payment processing failed'')),
                          payment', w')
                     | (Inr result, payment', w') \<Rightarrow>
                         (Inr (Deferred_result schedule installments interestRate amount
                                 firstInstallment result),
                          payment', w')))))"

subsection \<open>Split\<close>

definition NewSplitPaymentStrategy :: "SplitPaymentItem list \<Rightarrow> error + strategy" where
  "NewSplitPaymentStrategy payments =
     (if length payments = 0 then
        Inl (NewValidationError (Text ''at least one payment method is required''))
      else if length payments > 5 then
        Inl (NewValidationError (Text ''maximum 5 payment methods allowed for split payment''))
      else Inr (SplitPaymentStrategy payments))"

fun Split_validateParts :: "SplitPaymentItem list \<Rightarrow> int \<Rightarrow> error option" where
  "Split_validateParts [] i = None"
| "Split_validateParts (item # items) i =
     (if item_Amount item \<le> 0 then
        Some (NewValidationError
                (Sprintf ''split payment part %d has invalid amount: %.2f''
                   [FInt (i + 1), FFloat (item_Amount item)]))
      else Split_validateParts items (i + 1))"

definition Split_ValidateAmount :: "SplitPaymentItem list \<Rightarrow> real \<Rightarrow> error option" where
  "Split_ValidateAmount payments amount =
     (if amount \<le> 0 then Some (NewValidationError (Text ''amount must be positive''))
      else Split_validateParts payments 0)"

definition Split_sum :: "SplitPaymentItem list \<Rightarrow> real" where
  "Split_sum payments = foldl (\<lambda>splitSum item. splitSum + item_Amount item) 0 payments"

text \<open>
  The loop over the parts. On a part's failure the parts already processed are rolled
  back, which in the source only writes log entries, and the error is wrapped.
\<close>

fun Split_processParts ::
  "Context \<Rightarrow> SplitPaymentItem list \<Rightarrow> int \<Rightarrow> PaymentResult list \<Rightarrow> real \<Rightarrow> world
     \<Rightarrow> (error + PaymentResult list \<times> real) \<times> SplitPaymentItem list \<times> world" where
  "Split_processParts ctx [] i processedResults totalProcessed w =
     (Inr (processedResults, totalProcessed), [], w)"
| "Split_processParts ctx (item # items) i processedResults totalProcessed w =
     (case Process (item_Payment item) ctx (item_Amount item) w of
        (Inl err, payment', w') \<Rightarrow>
          (Inl (Wrap err ErrCodePaymentFailed
                  (Sprintf ''split payment part %d failed'' [FInt (i + 1)])),
           item\<lparr>item_Payment := payment'\<rparr> # items, w')
      | (Inr result, payment', w') \<Rightarrow>
          (case Split_processParts ctx items (i + 1) (processedResults @ [result])
                  (totalProcessed + item_Amount item) w' of
             (res, items', w'') \<Rightarrow> (res, item\<lparr>item_Payment := payment'\<rparr> # items', w'')))"

definition getSplitDetails :: "PaymentResult list \<Rightarrow> (string \<times> value) list list" where
  "getSplitDetails results =
     map (\<lambda>(i, result).
            [(''part'', VInt (int i + 1)),
             (''payment_method'', VString (PaymentMethod result)),
             (''amount'', VFloat (Amount result)),
             (''transaction_id'', VString (TransactionID result)),
             (''status'', VString ''completed'')])
         (zip [0..<length results] results)"

definition Split_combinedResult ::
  "SplitPaymentItem list \<Rightarrow> real \<Rightarrow> PaymentResult list \<Rightarrow> real \<Rightarrow> string \<Rightarrow> PaymentResult"
  where
  "Split_combinedResult payments totalAmount processedResults totalProcessed firstID =
     \<lparr>Success = True,
      TransactionID = firstID,
      Amount = totalAmount,
      OriginalAmount = totalAmount,
      ProcessedAmount = totalProcessed,
      Currency = ''USD'',
      PaymentMethod = ''split'',
      Message = Sprintf ''Split payment completed across %d methods''
                  [FInt (int (length payments))],
      Metadata = [''payment_strategy'' \<mapsto> VString ''split'',
                  ''payment_count'' \<mapsto> VInt (int (length payments)),
                  ''split_details'' \<mapsto> VMaps (getSplitDetails processedResults)],
      AppliedDecorators = []\<rparr>"

text \<open>\<open>processedResults[0]\<close> panics when no part was processed.\<close>

definition Split_Execute ::
  "SplitPaymentItem list \<Rightarrow> Context \<Rightarrow> real \<Rightarrow> world
     \<Rightarrow> (error + PaymentResult) \<times> SplitPaymentItem list \<times> world" where
  "Split_Execute payments ctx totalAmount w =
     (case Split_ValidateAmount payments totalAmount of
        Some err \<Rightarrow> (Inl err, payments, w)
      | None \<Rightarrow>
          (let splitSum = Split_sum payments in
           if Sprintf_2f splitSum \<noteq> Sprintf_2f totalAmount then
             (Inl (NewValidationError
                     (Sprintf ''split payment amounts (%.2f) do not match total amount (%.2f)''
                        [FFloat splitSum, FFloat totalAmount])),
              payments, w)
           else
             (case Split_processParts ctx payments 0 [] 0 w of
                (Inl err, payments', w') \<Rightarrow> (Inl err, payments', w')
              | (Inr (processedResults, totalProcessed), payments', w') \<Rightarrow>
                  (case processedResults of
                     [] \<Rightarrow> (Inl (RuntimePanic (Text ''index out of range [0] with length 0'')),
                            payments', w')
                   | first # rest \<Rightarrow>
                       (Inr (Split_combinedResult payments totalAmount processedResults
                               totalProcessed (TransactionID first)),
                        payments', w')))))"

subsection \<open>The strategy capability\<close>

fun Execute ::
  "strategy \<Rightarrow> Context \<Rightarrow> payment \<Rightarrow> real \<Rightarrow> world
     \<Rightarrow> (error + PaymentResult) \<times> strategy \<times> payment \<times> world" where
  "Execute (InstantPaymentStrategy minAmount maxAmount) ctx payment amount w =
     (case Instant_Execute minAmount maxAmount ctx payment amount w of
        (res, payment', w') \<Rightarrow> (res, InstantPaymentStrategy minAmount maxAmount, payment', w'))"
| "Execute (DeferredPaymentStrategy minAmount maxAmount installments interestRate)
       ctx payment amount w =
     (case Deferred_Execute minAmount maxAmount installments interestRate ctx payment amount w of
        (res, payment', w') \<Rightarrow>
          (res, DeferredPaymentStrategy minAmount maxAmount installments interestRate,
           payment', w'))"
| "Execute (SplitPaymentStrategy payments) ctx payment amount w =
     (case Split_Execute payments ctx amount w of
        (res, payments', w') \<Rightarrow> (res, SplitPaymentStrategy payments', payment, w'))"

section \<open>internal/factory: strategies\<close>

text \<open>
  \<open>CreateStrategy\<close> reads optional parameters from a map; a type assertion that fails
  leaves the default in place.
\<close>

definition supportedStrategies :: "string \<Rightarrow> bool" where
  "supportedStrategies strategyType = (strategyType \<in> {''instant'', ''deferred'', ''split''})"

definition param_float :: "(string \<rightharpoonup> value) \<Rightarrow> string \<Rightarrow> real \<Rightarrow> real" where
  "param_float params k dflt = (case params k of Some (VFloat v) \<Rightarrow> v | _ \<Rightarrow> dflt)"

definition createInstantStrategy :: "(string \<rightharpoonup> value) \<Rightarrow> error + strategy" where
  "createInstantStrategy params =
     (let minAmount = param_float params ''min_amount'' 1;
          maxAmount = param_float params ''max_amount'' 10000
      in Inr (InstantPaymentStrategy minAmount maxAmount))"

definition createDeferredStrategy :: "(string \<rightharpoonup> value) \<Rightarrow> error + strategy" where
  "createDeferredStrategy params =
     (let minAmount = param_float params ''min_amount'' 100;
          maxAmount = param_float params ''max_amount'' 10000;
          installments = (case params ''installments'' of
                            Some (VInt v) \<Rightarrow> v
                          | Some (VFloat v) \<Rightarrow> int_of_float v
                          | _ \<Rightarrow> 3);
          interestRate = param_float params ''interest_rate'' 0
      in if installments < 2 then
           Inl (NewValidationError (Text ''deferred payment requires at least 2 installments''))
         else if installments > 12 then
           Inl (NewValidationError (Text ''deferred payment cannot exceed 12 installments''))
         else Inr (DeferredPaymentStrategy minAmount maxAmount installments interestRate))"

definition CreateStrategy :: "string \<Rightarrow> (string \<rightharpoonup> value) \<Rightarrow> error + strategy" where
  "CreateStrategy strategyType params =
     (if \<not> supportedStrategies strategyType then
        Inl (NewValidationError
               (Sprintf ''unsupported payment strategy: %s'' [FString strategyType]))
      else if strategyType = ''instant'' then createInstantStrategy params
      else if strategyType = ''deferred'' then createDeferredStrategy params
      else if strategyType = ''split'' then
        Inl (NewValidationError (Text ''split strategy must be created with CreateSplitStrategy''))
      else
        Inl (NewValidationError
               (Sprintf ''unsupported payment strategy: %s'' [FString strategyType])))"

definition CreateSplitStrategy :: "SplitPaymentItem list \<Rightarrow> error + strategy" where
  "CreateSplitStrategy payments = NewSplitPaymentStrategy payments"

section \<open>internal/factory: payments\<close>

text \<open>
  The format checks of \<open>pkg/validator\<close> for card numbers, CVVs, expiry dates, e-mail
  addresses and wallet addresses rest on Go's \<open>regexp\<close> package. They are parameters of
  the model: each returns an error or nil for a given text.
\<close>

record Validators =
  ValidateCardNumber :: "string \<Rightarrow> error option"
  ValidateCVV :: "string \<Rightarrow> error option"
  ValidateExpiryDate :: "string \<Rightarrow> error option"
  EmailValidator_Validate :: "string \<Rightarrow> error option"
  CryptoAddressValidator_Validate :: "string \<Rightarrow> string \<Rightarrow> error option"

record PaymentConfig =
  pc_Currency :: string
  pc_Metadata :: "string \<rightharpoonup> value"
  CardNumber :: string
  CardHolder :: string
  pc_ExpiryDate :: string
  CVV :: string
  PayPalEmail :: string
  PayPalPassword :: string
  WalletAddress :: string
  CryptoType :: string

definition PaymentConfig_zero :: PaymentConfig where
  "PaymentConfig_zero =
     \<lparr>pc_Currency = [], pc_Metadata = Map.empty, CardNumber = [], CardHolder = [],
      pc_ExpiryDate = [], CVV = [], PayPalEmail = [], PayPalPassword = [],
      WalletAddress = [], CryptoType = []\<rparr>"

definition NewCreditCardPayment ::
  "Validators \<Rightarrow> string \<Rightarrow> string \<Rightarrow> string \<Rightarrow> string \<Rightarrow> error + payment" where
  "NewCreditCardPayment v cardNumber cardHolder expiryDate cvv =
     (case ValidateCardNumber v cardNumber of
        Some err \<Rightarrow> Inl (Wrap err ErrCodeInvalidPayment (Text ''invalid card number''))
      | None \<Rightarrow>
     (case ValidateCVV v cvv of
        Some err \<Rightarrow> Inl (Wrap err ErrCodeInvalidPayment (Text ''invalid CVV''))
      | None \<Rightarrow>
     (case ValidateExpiryDate v expiryDate of
        Some err \<Rightarrow> Inl (Wrap err ErrCodeInvalidPayment (Text ''invalid expiry date''))
      | None \<Rightarrow>
          if cardHolder = [] then
            Inl (NewInvalidPaymentError (Text ''card holder name is required''))
          else Inr (CreditCardPayment cardNumber cardHolder expiryDate cvv))))"

definition NewPayPalPayment :: "Validators \<Rightarrow> string \<Rightarrow> string \<Rightarrow> error + payment" where
  "NewPayPalPayment v email password =
     (case EmailValidator_Validate v email of
        Some err \<Rightarrow> Inl (Wrap err ErrCodeInvalidPayment (Text ''invalid PayPal email''))
      | None \<Rightarrow>
          if password = [] then
            Inl (NewInvalidPaymentError (Text ''PayPal password is required''))
          else Inr (PayPalPayment email password))"

text \<open>\<open>strings.ToUpper\<close>, on the ASCII letters.\<close>

definition ToUpper :: "string \<Rightarrow> string" where
  "ToUpper str =
     map (\<lambda>c. let n = (of_char c :: nat) in
               if 97 \<le> n \<and> n \<le> 122 then char_of (n - 32) else c) str"

definition NewCryptoPayment :: "Validators \<Rightarrow> string \<Rightarrow> string \<Rightarrow> error + payment" where
  "NewCryptoPayment v walletAddress cryptoType0 =
     (let cryptoType = ToUpper cryptoType0 in
      case CryptoAddressValidator_Validate v walletAddress cryptoType of
        Some err \<Rightarrow> Inl (Wrap err ErrCodeInvalidPayment (Text ''invalid wallet address''))
      | None \<Rightarrow>
          if cryptoType \<notin> {''BTC'', ''ETH'', ''USDT''} then
            Inl (NewInvalidPaymentError
                   (Text (''unsupported cryptocurrency type: '' @ cryptoType)))
          else Inr (CryptoPayment walletAddress cryptoType))"

definition createCreditCardPayment :: "Validators \<Rightarrow> PaymentConfig \<Rightarrow> error + payment" where
  "createCreditCardPayment v config =
     (if CardNumber config = [] then Inl (NewValidationError (Text ''card number is required''))
      else if CardHolder config = [] then
        Inl (NewValidationError (Text ''card holder is required''))
      else if pc_ExpiryDate config = [] then
        Inl (NewValidationError (Text ''expiry date is required''))
      else if CVV config = [] then Inl (NewValidationError (Text ''CVV is required''))
      else NewCreditCardPayment v (CardNumber config) (CardHolder config)
             (pc_ExpiryDate config) (CVV config))"

definition createPayPalPayment :: "Validators \<Rightarrow> PaymentConfig \<Rightarrow> error + payment" where
  "createPayPalPayment v config =
     (if PayPalEmail config = [] then
        Inl (NewValidationError (Text ''PayPal email is required''))
      else if PayPalPassword config = [] then
        Inl (NewValidationError (Text ''PayPal password is required''))
      else NewPayPalPayment v (PayPalEmail config) (PayPalPassword config))"

definition createCryptoPayment :: "Validators \<Rightarrow> PaymentConfig \<Rightarrow> error + payment" where
  "createCryptoPayment v config =
     (if WalletAddress config = [] then
        Inl (NewValidationError (Text ''wallet address is required''))
      else if CryptoType config = [] then
        Inl (NewValidationError (Text ''crypto type is required''))
      else NewCryptoPayment v (WalletAddress config) (CryptoType config))"

definition supportedTypes :: "string \<Rightarrow> bool" where
  "supportedTypes paymentType = (paymentType \<in> {''credit_card'', ''paypal'', ''crypto''})"

definition CreatePayment :: "Validators \<Rightarrow> string \<Rightarrow> PaymentConfig \<Rightarrow> error + payment" where
  "CreatePayment v paymentType config =
     (if \<not> supportedTypes paymentType then
        Inl (NewInvalidPaymentError
               (Sprintf ''unsupported payment type: %s'' [FString paymentType]))
      else if paymentType = ''credit_card'' then createCreditCardPayment v config
      else if paymentType = ''paypal'' then createPayPalPayment v config
      else if paymentType = ''crypto'' then createCryptoPayment v config
      else
        Inl (NewInvalidPaymentError
               (Sprintf ''unsupported payment type: %s'' [FString paymentType])))"

section \<open>internal/domain\<close>

record Address =
  Street :: string
  City :: string
  State :: string
  PostalCode :: string
  Country :: string

record Customer =
  cust_ID :: string
  Email :: string
  Name :: string
  Phone :: string
  LoyaltyPoints :: int
  Address :: Address
  cust_CreatedAt :: int
  cust_UpdatedAt :: int

record Product =
  prod_ID :: string
  prod_Name :: string
  Description :: string
  prod_Price :: real
  SKU :: string
  Stock :: int
  Category :: string
  prod_CreatedAt :: int
  prod_UpdatedAt :: int

record CartItem =
  ProductID :: string
  Product :: Product
  Quantity :: int
  Price :: real

record Cart =
  cart_ID :: string
  cart_CustomerID :: string
  Items :: "CartItem list"
  cart_CreatedAt :: int
  cart_UpdatedAt :: int

definition GetTotal :: "Cart \<Rightarrow> real" where
  "GetTotal c =
     foldl (\<lambda>total item. total + Price item * real_of_int (Quantity item)) 0 (Items c)"

definition Clear :: "Cart \<Rightarrow> Cart" where
  "Clear c = c\<lparr>Items := []\<rparr>"

datatype TransactionStatus =
    TransactionStatusPending
  | TransactionStatusProcessing
  | TransactionStatusCompleted
  | TransactionStatusFailed
  | TransactionStatusRefunded

text \<open>
  \<open>ErrorMessage\<close> holds the error whose \<open>Error()\<close> text the source stores, or \<open>None\<close> for
  the empty text.
\<close>

record Transaction =
  txn_ID :: string
  txn_CustomerID :: string
  txn_Amount :: real
  txn_Status :: TransactionStatus
  txn_PaymentMethod :: string
  PaymentDetails :: "string \<rightharpoonup> value"
  txn_Metadata :: "string \<rightharpoonup> value"
  ErrorMessage :: "error option"
  ProcessedAt :: int
  txn_CreatedAt :: int

record ReceiptItem =
  ri_ProductID :: string
  ProductName :: string
  ri_SKU :: string
  ri_Quantity :: int
  UnitPrice :: real
  ri_Total :: real

record Receipt =
  rcpt_ID :: string
  rcpt_TransactionID :: string
  rcpt_CustomerID :: string
  CustomerName :: string
  CustomerEmail :: string
  rcpt_Items :: "ReceiptItem list"
  Subtotal :: real
  Discount :: real
  Tax :: real
  Cashback :: real
  rcpt_LoyaltyPoints :: int
  Total :: real
  rcpt_PaymentMethod :: string
  rcpt_PaymentDetails :: "string \<rightharpoonup> value"
  rcpt_AppliedDecorators :: "string list"
  rcpt_CreatedAt :: int

record CheckoutOptions =
  opt_PaymentMethod :: string
  PaymentStrategy :: string
  EnabledDecorators :: "string list"
  opt_DiscountCode :: string
  UseLoyaltyPoints :: int
  opt_Metadata :: "string \<rightharpoonup> value"

section \<open>config\<close>

text \<open>
  The part of the configuration the engine reads: \<open>Payment.Timeout\<close>,
  \<open>Decorators.Discount.Enabled\<close> and so on, one field per setting.
\<close>

record Config =
  Payment_Timeout :: int
  Payment_RetryAttempts :: int
  Payment_RetryDelay :: int
  Discount_Enabled :: bool
  Discount_MaxPercentage :: real
  Discount_MaxFixedAmount :: real
  Cashback_Enabled :: bool
  Cashback_Tier1Threshold :: real
  Cashback_Tier1Percentage :: real
  Cashback_Tier2Percentage :: real
  FraudDetection_Enabled :: bool
  FraudDetection_MaxRiskScore :: int
  FraudDetection_VelocityCheckWindow :: int
  FraudDetection_MaxTransactionsPerWindow :: int
  Tax_Enabled :: bool
  Tax_DefaultRate :: real
  Tax_Rates :: "string \<rightharpoonup> real"
  LoyaltyPoints_Enabled :: bool
  LoyaltyPoints_PointsToCurrencyRatio :: real
  LoyaltyPoints_MaxRedemptionPercentage :: real

section \<open>internal/factory: decorators\<close>

definition createDiscountDecorator ::
  "Config \<Rightarrow> payment \<Rightarrow> CheckoutOptions \<Rightarrow> world \<Rightarrow> error + payment" where
  "createDiscountDecorator cfg wrapped options w =
     (if \<not> Discount_Enabled cfg then Inr wrapped
      else NewDiscountDecorator wrapped
             \<lparr>DiscountType = ''percentage'',
              DiscountValue = 10,
              MinAmount = 0,
              MaxDiscount = Discount_MaxFixedAmount cfg,
              ExpiryDate = now w + 30 * 24 * Hour,
              DiscountCode = opt_DiscountCode options\<rparr>)"

definition createCashbackDecorator :: "Config \<Rightarrow> payment \<Rightarrow> error + payment" where
  "createCashbackDecorator cfg wrapped =
     (if \<not> Cashback_Enabled cfg then Inr wrapped
      else Inr (CashbackDecorator wrapped
                  \<lparr>Tier1Threshold = Cashback_Tier1Threshold cfg,
                   Tier1Percentage = Cashback_Tier1Percentage cfg,
                   Tier2Percentage = Cashback_Tier2Percentage cfg\<rparr>))"

definition createFraudDetectionDecorator ::
  "Config \<Rightarrow> payment \<Rightarrow> Customer option \<Rightarrow> error + payment" where
  "createFraudDetectionDecorator cfg wrapped customer =
     (if \<not> FraudDetection_Enabled cfg then Inr wrapped
      else
        (let customerID = (case customer of None \<Rightarrow> [] | Some c \<Rightarrow> cust_ID c)
         in Inr (NewFraudDetectionDecorator wrapped
                   \<lparr>MaxRiskScore = FraudDetection_MaxRiskScore cfg,
                    VelocityCheckWindow = FraudDetection_VelocityCheckWindow cfg,
                    MaxTransactionsPerWindow = FraudDetection_MaxTransactionsPerWindow cfg,
                    CustomerID = customerID\<rparr>)))"

definition createTaxDecorator ::
  "Config \<Rightarrow> payment \<Rightarrow> Customer option \<Rightarrow> error + payment" where
  "createTaxDecorator cfg wrapped customer =
     (if \<not> Tax_Enabled cfg then Inr wrapped
      else
        (let region = (case customer of
                         None \<Rightarrow> ''DEFAULT''
                       | Some c \<Rightarrow> if State (Address c) \<noteq> [] then State (Address c)
                                   else ''DEFAULT'')
         in Inr (NewTaxDecorator wrapped
                   \<lparr>Region = region,
                    TaxRates = Tax_Rates cfg,
                    DefaultRate = Tax_DefaultRate cfg\<rparr>)))"

definition createLoyaltyPointsDecorator ::
  "Config \<Rightarrow> payment \<Rightarrow> CheckoutOptions \<Rightarrow> Customer option \<Rightarrow> error + payment" where
  "createLoyaltyPointsDecorator cfg wrapped options customer =
     (if \<not> LoyaltyPoints_Enabled cfg then Inr wrapped
      else case customer of
             None \<Rightarrow> Inr wrapped
           | Some c \<Rightarrow>
               if UseLoyaltyPoints options = 0 then Inr wrapped
               else NewLoyaltyPointsDecorator wrapped
                      \<lparr>AvailablePoints = LoyaltyPoints c,
                       PointsToRedeem = UseLoyaltyPoints options,
                       PointsToCurrencyRatio = LoyaltyPoints_PointsToCurrencyRatio cfg,
                       MaxRedemptionPercentage = LoyaltyPoints_MaxRedemptionPercentage cfg\<rparr>)"

definition createDecorator ::
  "Config \<Rightarrow> string \<Rightarrow> payment \<Rightarrow> CheckoutOptions \<Rightarrow> Customer option \<Rightarrow> world
     \<Rightarrow> error + payment" where
  "createDecorator cfg feature wrapped options customer w =
     (if feature = ''discount'' then createDiscountDecorator cfg wrapped options w
      else if feature = ''cashback'' then createCashbackDecorator cfg wrapped
      else if feature = ''fraud_detection'' then createFraudDetectionDecorator cfg wrapped customer
      else if feature = ''tax'' then createTaxDecorator cfg wrapped customer
      else if feature = ''loyalty_points'' then
        createLoyaltyPointsDecorator cfg wrapped options customer
      else Inl (NewValidationError (Sprintf ''unsupported decorator: %s'' [FString feature])))"

fun CreateDecoratorChain ::
  "Config \<Rightarrow> payment \<Rightarrow> string list \<Rightarrow> CheckoutOptions \<Rightarrow> Customer option \<Rightarrow> world
     \<Rightarrow> error + payment" where
  "CreateDecoratorChain cfg current [] options customer w = Inr current"
| "CreateDecoratorChain cfg current (feature # features) options customer w =
     (case createDecorator cfg feature current options customer w of
        Inl err \<Rightarrow>
          Inl (GoError (Sprintf ''failed to create decorator %s: %w'' [FString feature])
                 (Some err))
      | Inr current' \<Rightarrow> CreateDecoratorChain cfg current' features options customer w)"

section \<open>internal/repository: the in-memory repository\<close>

text \<open>
  The repository contract is modelled by its in-memory implementation: four maps keyed
  by id. \<open>GetProduct\<close> and \<open>GetCustomer\<close> return the stored object itself, so a change a
  service makes to the object it got is a change to the entry under that key.
\<close>

record repository =
  customers :: "string \<rightharpoonup> Customer"
  products :: "string \<rightharpoonup> Product"
  carts :: "string \<rightharpoonup> Cart"
  transactions :: "string \<rightharpoonup> Transaction"

definition GetCustomer :: "repository \<Rightarrow> string \<Rightarrow> error + Customer" where
  "GetCustomer r ident =
     (case customers r ident of
        None \<Rightarrow> Inl (NewNotFoundError ''customer'')
      | Some customer \<Rightarrow> Inr customer)"

definition UpdateCustomer :: "repository \<Rightarrow> Customer \<Rightarrow> error + repository" where
  "UpdateCustomer r customer =
     (if customers r (cust_ID customer) = None then Inl (NewNotFoundError ''customer'')
      else Inr (r\<lparr>customers := (customers r)(cust_ID customer \<mapsto> customer)\<rparr>))"

definition GetProduct :: "repository \<Rightarrow> string \<Rightarrow> error + Product" where
  "GetProduct r ident =
     (case products r ident of
        None \<Rightarrow> Inl (NewNotFoundError ''product'')
      | Some product \<Rightarrow> Inr product)"

definition UpdateProduct :: "repository \<Rightarrow> Product \<Rightarrow> error + repository" where
  "UpdateProduct r product =
     (if products r (prod_ID product) = None then Inl (NewNotFoundError ''product'')
      else Inr (r\<lparr>products := (products r)(prod_ID product \<mapsto> product)\<rparr>))"

definition CreateTransaction :: "repository \<Rightarrow> Transaction \<Rightarrow> error + repository" where
  "CreateTransaction r transaction =
     (if transactions r (txn_ID transaction) \<noteq> None then
        Inl (NewAlreadyExistsError ''transaction'')
      else Inr (r\<lparr>transactions := (transactions r)(txn_ID transaction \<mapsto> transaction)\<rparr>))"

section \<open>internal/service\<close>

definition CheckAvailability :: "repository \<Rightarrow> string \<Rightarrow> int \<Rightarrow> error + bool" where
  "CheckAvailability r productID quantity =
     (case GetProduct r productID of
        Inl err \<Rightarrow> Inl err
      | Inr product \<Rightarrow> Inr (Stock product \<ge> quantity))"

definition ReserveStock :: "repository \<Rightarrow> string \<Rightarrow> int \<Rightarrow> error option \<times> repository" where
  "ReserveStock r productID quantity =
     (case GetProduct r productID of
        Inl err \<Rightarrow> (Some err, r)
      | Inr product \<Rightarrow>
          if Stock product < quantity then
            (Some (NewInventoryError
                     (Sprintf ''insufficient stock for product %s: have %d, need %d''
                        [FString (prod_Name product), FInt (Stock product), FInt quantity])), r)
          else
            (let product' = product\<lparr>Stock := Stock product - quantity\<rparr>;
                 r1 = r\<lparr>products := (products r)(productID \<mapsto> product')\<rparr>
             in case UpdateProduct r1 product' of
                  Inl err \<Rightarrow> (Some err, r1)
                | Inr r2 \<Rightarrow> (None, r2)))"

definition ReleaseStock :: "repository \<Rightarrow> string \<Rightarrow> int \<Rightarrow> error option \<times> repository" where
  "ReleaseStock r productID quantity =
     (case GetProduct r productID of
        Inl err \<Rightarrow> (Some err, r)
      | Inr product \<Rightarrow>
          (let product' = product\<lparr>Stock := Stock product + quantity\<rparr>;
               r1 = r\<lparr>products := (products r)(productID \<mapsto> product')\<rparr>
           in case UpdateProduct r1 product' of
                Inl err \<Rightarrow> (Some err, r1)
              | Inr r2 \<Rightarrow> (None, r2)))"

definition UpdateLoyaltyPoints ::
  "repository \<Rightarrow> string \<Rightarrow> int \<Rightarrow> int \<Rightarrow> error option \<times> repository" where
  "UpdateLoyaltyPoints r customerID earned redeemed =
     (case GetCustomer r customerID of
        Inl err \<Rightarrow> (Some err, r)
      | Inr customer \<Rightarrow>
          (let customer' = customer\<lparr>LoyaltyPoints := LoyaltyPoints customer + earned - redeemed\<rparr>;
               r1 = r\<lparr>customers := (customers r)(customerID \<mapsto> customer')\<rparr>
           in case UpdateCustomer r1 customer' of
                Inl err \<Rightarrow> (Some err, r1)
              | Inr r2 \<Rightarrow> (None, r2)))"

section \<open>internal/facade: the checkout orchestrator\<close>

record CheckoutFacade =
  config :: Config
  validators :: Validators

definition notifyEvent :: "Event \<Rightarrow> world \<Rightarrow> world" where
  "notifyEvent event w = w\<lparr>emitted := emitted w @ [event]\<rparr>"

fun validateInventory_items :: "repository \<Rightarrow> CartItem list \<Rightarrow> error option" where
  "validateInventory_items r [] = None"
| "validateInventory_items r (item # items) =
     (case CheckAvailability r (ProductID item) (Quantity item) of
        Inl err \<Rightarrow> Some (Wrap err ErrCodeInventoryError (Text ''failed to check inventory''))
      | Inr available \<Rightarrow>
          if \<not> available then
            Some (NewInventoryError
                    (Sprintf ''insufficient inventory for product %s''
                       [FString (prod_Name (Product item))]))
          else validateInventory_items r items)"

definition validateInventory :: "repository \<Rightarrow> Cart \<Rightarrow> error option" where
  "validateInventory r cart = validateInventory_items r (Items cart)"

fun reserveInventory_items :: "repository \<Rightarrow> CartItem list \<Rightarrow> error option \<times> repository" where
  "reserveInventory_items r [] = (None, r)"
| "reserveInventory_items r (item # items) =
     (case ReserveStock r (ProductID item) (Quantity item) of
        (Some err, r') \<Rightarrow>
          (Some (Wrap err ErrCodeInventoryError (Text ''failed to reserve inventory'')), r')
      | (None, r') \<Rightarrow> reserveInventory_items r' items)"

definition reserveInventory :: "repository \<Rightarrow> Cart \<Rightarrow> error option \<times> repository" where
  "reserveInventory r cart = reserveInventory_items r (Items cart)"

fun rollbackInventory_items :: "repository \<Rightarrow> CartItem list \<Rightarrow> repository" where
  "rollbackInventory_items r [] = r"
| "rollbackInventory_items r (item # items) =
     rollbackInventory_items (snd (ReleaseStock r (ProductID item) (Quantity item))) items"

definition rollbackInventory :: "repository \<Rightarrow> Cart \<Rightarrow> repository" where
  "rollbackInventory r cart = rollbackInventory_items r (Items cart)"

definition createPayment :: "Validators \<Rightarrow> CheckoutOptions \<Rightarrow> error + payment" where
  "createPayment v options =
     (let config = PaymentConfig_zero;
          config =
            (if opt_PaymentMethod options = ''credit_card'' then
               config\<lparr>CardNumber := ''4532015112830366'', CardHolder := ''John Doe'',
                      pc_ExpiryDate := ''12/25'', CVV := ''123''\<rparr>
             else if opt_PaymentMethod options = ''paypal'' then
               config\<lparr>PayPalEmail := ''user@example.com'', PayPalPassword := ''password''\<rparr>
             else if opt_PaymentMethod options = ''crypto'' then
               config\<lparr>WalletAddress := ''1A1zP1eP5QGefi2DMPTfTL5SLmv7DivfNa'',
                      CryptoType := ''BTC''\<rparr>
             else config)
      in CreatePayment v (opt_PaymentMethod options) config)"

definition applyDecorators ::
  "Config \<Rightarrow> payment \<Rightarrow> CheckoutOptions \<Rightarrow> Customer \<Rightarrow> world \<Rightarrow> error + payment" where
  "applyDecorators cfg paymentInstance options customer w =
     CreateDecoratorChain cfg paymentInstance (EnabledDecorators options) options
       (Some customer) w"

text \<open>
  The retry loop over \<open>attempt = 0 .. RetryAttempts\<close>. The source returns the pair
  \<open>(result, error)\<close>: \<open>Inr (Some result)\<close> is a result with a nil error, \<open>Inl err\<close> a nil
  result with an error, and \<open>Inr None\<close> the pair \<open>(nil, nil)\<close> that the loop returns when
  it never runs.
\<close>

fun executeWithRetry_loop ::
  "Config \<Rightarrow> int list \<Rightarrow> error option \<Rightarrow> strategy \<Rightarrow> Context \<Rightarrow> payment \<Rightarrow> real \<Rightarrow> world
     \<Rightarrow> (error + PaymentResult option) \<times> world" where
  "executeWithRetry_loop cfg [] lastErr paymentStrategy ctx paymentInstance amount w =
     ((case lastErr of None \<Rightarrow> Inr None | Some err \<Rightarrow> Inl err), w)"
| "executeWithRetry_loop cfg (attempt # attempts) lastErr paymentStrategy ctx paymentInstance
       amount w =
     (let w1 = (if attempt > 0 then time_Sleep (Payment_RetryDelay cfg) w else w) in
      case Execute paymentStrategy ctx paymentInstance amount w1 of
        (Inr result, paymentStrategy', paymentInstance', w') \<Rightarrow> (Inr (Some result), w')
      | (Inl (RuntimePanic msg), paymentStrategy', paymentInstance', w') \<Rightarrow>
          (Inl (RuntimePanic msg), w')
      | (Inl err, paymentStrategy', paymentInstance', w') \<Rightarrow>
          if IsErrorCode err ErrCodeFraudDetected \<or> IsErrorCode err ErrCodeInvalidPayment then
            (Inl err, w')
          else executeWithRetry_loop cfg attempts (Some err) paymentStrategy' ctx
                 paymentInstance' amount w')"

definition executeWithRetry ::
  "Config \<Rightarrow> strategy \<Rightarrow> Context \<Rightarrow> payment \<Rightarrow> real \<Rightarrow> world
     \<Rightarrow> (error + PaymentResult option) \<times> world" where
  "executeWithRetry cfg paymentStrategy ctx paymentInstance amount w =
     executeWithRetry_loop cfg [0..Payment_RetryAttempts cfg] None paymentStrategy ctx
       paymentInstance amount w"

definition executePaymentStrategy ::
  "Config \<Rightarrow> Context \<Rightarrow> payment \<Rightarrow> real \<Rightarrow> CheckoutOptions \<Rightarrow> world
     \<Rightarrow> (error + PaymentResult option) \<times> world" where
  "executePaymentStrategy cfg ctx0 paymentInstance amount options w =
     (let ctx = WithTimeout ctx0 (Payment_Timeout cfg) w;
          strategyType = (if PaymentStrategy options = [] then ''instant''
                          else PaymentStrategy options)
      in case CreateStrategy strategyType Map.empty of
           Inl err \<Rightarrow> (Inl err, w)
         | Inr paymentStrategy \<Rightarrow>
             executeWithRetry cfg paymentStrategy ctx paymentInstance amount w)"

definition metadata_int :: "(string \<rightharpoonup> value) \<Rightarrow> string \<Rightarrow> int" where
  "metadata_int m k = (case m k of Some (VInt v) \<Rightarrow> v | _ \<Rightarrow> 0)"

definition metadata_float :: "(string \<rightharpoonup> value) \<Rightarrow> string \<Rightarrow> real" where
  "metadata_float m k = (case m k of Some (VFloat v) \<Rightarrow> v | _ \<Rightarrow> 0)"

definition updateLoyaltyPoints ::
  "repository \<Rightarrow> Customer \<Rightarrow> PaymentResult \<Rightarrow> error option \<times> repository" where
  "updateLoyaltyPoints r customer result =
     (let pointsEarned = metadata_int (Metadata result) ''loyalty_points_earned'';
          pointsRedeemed = metadata_int (Metadata result) ''loyalty_points_redeemed''
      in if pointsEarned > 0 \<or> pointsRedeemed > 0 then
           UpdateLoyaltyPoints r (cust_ID customer) pointsEarned pointsRedeemed
         else (None, r))"

definition generateReceipt ::
  "Transaction \<Rightarrow> Cart \<Rightarrow> Customer \<Rightarrow> PaymentResult \<Rightarrow> world \<Rightarrow> Receipt \<times> world" where
  "generateReceipt transaction cart customer result w =
     (let items = map (\<lambda>item. \<lparr>ri_ProductID = ProductID item,
                               ProductName = prod_Name (Product item),
                               ri_SKU = SKU (Product item),
                               ri_Quantity = Quantity item,
                               UnitPrice = Price item,
                               ri_Total = Price item * real_of_int (Quantity item)\<rparr>)
                      (Items cart);
          (newid, w') = NewID w
      in (\<lparr>rcpt_ID = newid,
           rcpt_TransactionID = txn_ID transaction,
           rcpt_CustomerID = cust_ID customer,
           CustomerName = Name customer,
           CustomerEmail = Email customer,
           rcpt_Items = items,
           Subtotal = GetTotal cart,
           Discount = metadata_float (Metadata result) ''discount_amount'',
           Tax = metadata_float (Metadata result) ''tax_amount'',
           Cashback = metadata_float (Metadata result) ''cashback_amount'',
           rcpt_LoyaltyPoints = metadata_int (Metadata result) ''loyalty_points_earned'',
           Total = Amount result,
           rcpt_PaymentMethod = PaymentMethod result,
           rcpt_PaymentDetails = Metadata result,
           rcpt_AppliedDecorators = AppliedDecorators result,
           rcpt_CreatedAt = now w'\<rparr>, w'))"

definition handleError ::
  "Transaction \<Rightarrow> error \<Rightarrow> message \<Rightarrow> world \<Rightarrow> error \<times> Transaction \<times> world" where
  "handleError transaction err msg w =
     (let transaction' = transaction\<lparr>txn_Status := TransactionStatusFailed,
                                      ErrorMessage := Some err\<rparr>;
          w' = notifyEvent \<lparr>evt_Type = EventPaymentFailed,
                            evt_TransactionID = txn_ID transaction',
                            evt_CustomerID = txn_CustomerID transaction',
                            evt_Amount = txn_Amount transaction',
                            evt_PaymentMethod = txn_PaymentMethod transaction',
                            evt_Result = None,
                            evt_Error = Some err,
                            evt_Metadata = Map.empty,
                            evt_Timestamp = now w\<rparr> w
      in (Wrap err ErrCodePaymentFailed msg, transaction', w'))"

text \<open>
  \<open>ProcessOrder\<close> returns the receipt or the error, the cart (cleared on success), the
  repository and the environment after the call. The transaction is a local object; it
  reaches the repository only through \<open>CreateTransaction\<close>. A panic of the strategy
  unwinds through \<open>ProcessOrder\<close>; so does the dereference of a nil result.

  Two parts of its body are named: \<open>completeOrder\<close> is the success path, from marking
  the transaction completed to returning the receipt; \<open>failOrder\<close> is the statement
  \<open>return nil, f.handleError(ctx, transaction, err, message)\<close>.
\<close>

definition completeOrder ::
  "Transaction \<Rightarrow> Cart \<Rightarrow> Customer \<Rightarrow> PaymentResult \<Rightarrow> repository \<Rightarrow> world
     \<Rightarrow> (error + Receipt) \<times> Cart \<times> repository \<times> world" where
  "completeOrder transaction0 cart customer result r w =
     (let transaction = transaction0\<lparr>txn_Status := TransactionStatusCompleted,
                                      ProcessedAt := now w,
                                      PaymentDetails := Metadata result\<rparr>;
          (loyaltyErr, r1) = updateLoyaltyPoints r customer result;
          (receipt, w1) = generateReceipt transaction cart customer result w;
          r2 = (case CreateTransaction r1 transaction of Inl err \<Rightarrow> r1 | Inr r' \<Rightarrow> r');
          cart' = Clear cart;
          w2 = notifyEvent \<lparr>evt_Type = EventPaymentSuccess,
                            evt_TransactionID = txn_ID transaction,
                            evt_CustomerID = cust_ID customer,
                            evt_Amount = Amount result,
                            evt_PaymentMethod = PaymentMethod result,
                            evt_Result = Some result,
                            evt_Error = None,
                            evt_Metadata = Map.empty,
                            evt_Timestamp = now w1\<rparr> w1
      in (Inr receipt, cart', r2, w2))"

definition failOrder ::
  "Transaction \<Rightarrow> error \<Rightarrow> message \<Rightarrow> Cart \<Rightarrow> repository \<Rightarrow> world
     \<Rightarrow> (error + Receipt) \<times> Cart \<times> repository \<times> world" where
  "failOrder transaction err msg cart r w =
     (case handleError transaction err msg w of
        (wrapped, transaction', w') \<Rightarrow> (Inl wrapped, cart, r, w'))"

definition ProcessOrder ::
  "CheckoutFacade \<Rightarrow> Context \<Rightarrow> Cart \<Rightarrow> Customer \<Rightarrow> CheckoutOptions \<Rightarrow> repository \<Rightarrow> world
     \<Rightarrow> (error + Receipt) \<times> Cart \<times> repository \<times> world" where
  "ProcessOrder f ctx cart customer options r w0 =
     (let (newid, w1) = NewID w0;
          transaction = \<lparr>txn_ID = newid,
                         txn_CustomerID = cust_ID customer,
                         txn_Amount = GetTotal cart,
                         txn_Status = TransactionStatusPending,
                         txn_PaymentMethod = opt_PaymentMethod options,
                         PaymentDetails = Map.empty,
                         txn_Metadata = opt_Metadata options,
                         ErrorMessage = None,
                         ProcessedAt = 0,
                         txn_CreatedAt = now w1\<rparr>;
          w = notifyEvent \<lparr>evt_Type = EventPaymentStarted,
                           evt_TransactionID = txn_ID transaction,
                           evt_CustomerID = cust_ID customer,
                           evt_Amount = GetTotal cart,
                           evt_PaymentMethod = opt_PaymentMethod options,
                           evt_Result = None,
                           evt_Error = None,
                           evt_Metadata = Map.empty,
                           evt_Timestamp = now w1\<rparr> w1
      in case validateInventory r cart of
           Some err \<Rightarrow>
             failOrder transaction err (Text ''inventory validation failed'') cart r w
         | None \<Rightarrow>
        (case reserveInventory r cart of
           (Some err, r1) \<Rightarrow>
             failOrder transaction err (Text ''inventory reservation failed'') cart r1 w
         | (None, r1) \<Rightarrow>
        (case createPayment (validators f) options of
           Inl err \<Rightarrow>
             failOrder transaction err (Text ''payment creation failed'') cart
               (rollbackInventory r1 cart) w
         | Inr paymentInstance \<Rightarrow>
        (case applyDecorators (config f) paymentInstance options customer w of
           Inl err \<Rightarrow>
             failOrder transaction err (Text ''decorator application failed'') cart
               (rollbackInventory r1 cart) w
         | Inr decoratedPayment \<Rightarrow>
        (case executePaymentStrategy (config f) ctx decoratedPayment (GetTotal cart) options w of
           (Inl (RuntimePanic msg), w') \<Rightarrow> (Inl (RuntimePanic msg), cart, r1, w')
         | (Inl err, w') \<Rightarrow>
             failOrder transaction err (Text ''payment processing failed'') cart
               (rollbackInventory r1 cart) w'
         | (Inr None, w') \<Rightarrow>
             (Inl (RuntimePanic (Text ''invalid memory address or nil pointer dereference'')),
              cart, r1, w')
         | (Inr (Some result), w') \<Rightarrow>
             completeOrder transaction cart customer result r1 w')))))"

section \<open>Notions used to state the properties\<close>

text \<open>
  \<open>calls_to p w w'\<close>: the amounts with which \<open>Process\<close> was called on the payment \<open>p\<close>
  between the environments \<open>w\<close> and \<open>w'\<close>, in order.
\<close>

definition calls_to :: "payment \<Rightarrow> world \<Rightarrow> world \<Rightarrow> real list" where
  "calls_to p w w' =
     map snd (filter (\<lambda>c. fst c = p) (drop (length (invocations w)) (invocations w')))"



section \<open>Concrete inputs\<close>

definition ctx0 :: Context where
  "ctx0 = \<lparr>cancelled = False, deadline = None\<rparr>"

definition w0 :: world where
  "w0 = \<lparr>now = 1000, rand_src = (\<lambda>n. 0), rand_pos = 0,
          id_src = (\<lambda>n. ''3f2c9a10-7b1e-4c55-9d0a-5e8f6b7c1d2e''), id_pos = 0,
          emitted = [], invocations = []\<rparr>"

definition card :: payment where
  "card = CreditCardPayment ''4532015112830366'' ''John Doe'' ''12/25'' ''123''"

definition percent10 :: DiscountConfig where
  "percent10 = \<lparr>DiscountType = ''percentage'', DiscountValue = 10, MinAmount = 0,
                 MaxDiscount = 100, ExpiryDate = 1000 + 24 * Hour, DiscountCode = ''TEST10''\<rparr>"

definition fixed20 :: DiscountConfig where
  "fixed20 = \<lparr>DiscountType = ''fixed'', DiscountValue = 20, MinAmount = 0,
               MaxDiscount = 100, ExpiryDate = 1000 + 24 * Hour, DiscountCode = ''SAVE20''\<rparr>"

definition expired10 :: DiscountConfig where
  "expired10 = \<lparr>DiscountType = ''percentage'', DiscountValue = 10, MinAmount = 0,
                 MaxDiscount = 0, ExpiryDate = 1, DiscountCode = []\<rparr>"




definition cfg0 :: Config where
  "cfg0 = \<lparr>Payment_Timeout = 30000 * Millisecond,
           Payment_RetryAttempts = 2,
           Payment_RetryDelay = 1000 * Millisecond,
           Discount_Enabled = True, Discount_MaxPercentage = 50, Discount_MaxFixedAmount = 100,
           Cashback_Enabled = True, Cashback_Tier1Threshold = 100,
           Cashback_Tier1Percentage = 1, Cashback_Tier2Percentage = 2,
           FraudDetection_Enabled = True, FraudDetection_MaxRiskScore = 70,
           FraudDetection_VelocityCheckWindow = Hour,
           FraudDetection_MaxTransactionsPerWindow = 10,
           Tax_Enabled = True, Tax_DefaultRate = 10, Tax_Rates = Map.empty,
           LoyaltyPoints_Enabled = True, LoyaltyPoints_PointsToCurrencyRatio = 100,
           LoyaltyPoints_MaxRedemptionPercentage = 50\<rparr>"

definition validators0 :: Validators where
  "validators0 = \<lparr>ValidateCardNumber = (\<lambda>s. None), ValidateCVV = (\<lambda>s. None),
                   ValidateExpiryDate = (\<lambda>s. None), EmailValidator_Validate = (\<lambda>s. None),
                   CryptoAddressValidator_Validate = (\<lambda>a c. None)\<rparr>"

definition facade0 :: CheckoutFacade where
  "facade0 = \<lparr>config = cfg0, validators = validators0\<rparr>"

definition laptop :: Product where
  "laptop = \<lparr>prod_ID = ''prod-1'', prod_Name = ''Laptop'',
              Description = ''High-performance laptop'', prod_Price = 99999 / 100,
              SKU = ''LAP-001'', Stock = 10, Category = ''Electronics'',
              prod_CreatedAt = 0, prod_UpdatedAt = 0\<rparr>"

definition john :: Customer where
  "john = \<lparr>cust_ID = ''cust-1'', Email = ''john.doe@example.com'', Name = ''John Doe'',
            Phone = ''+1234567890'', LoyaltyPoints = 500,
            Address = \<lparr>Street = ''123 Main St'', City = ''San Francisco'', State = ''CA'',
                       PostalCode = ''94105'', Country = ''USA''\<rparr>,
            cust_CreatedAt = 0, cust_UpdatedAt = 0\<rparr>"

definition repo0 :: repository where
  "repo0 = \<lparr>customers = [''cust-1'' \<mapsto> john], products = [''prod-1'' \<mapsto> laptop],
             carts = Map.empty, transactions = Map.empty\<rparr>"

definition cart_of :: "int \<Rightarrow> Cart" where
  "cart_of quantity =
     \<lparr>cart_ID = ''cart-1'', cart_CustomerID = ''cust-1'',
      Items = [\<lparr>ProductID = ''prod-1'', Product = laptop, Quantity = quantity,
                Price = 99999 / 100\<rparr>],
      cart_CreatedAt = 0, cart_UpdatedAt = 0\<rparr>"

definition options_of :: "string \<Rightarrow> string list \<Rightarrow> CheckoutOptions" where
  "options_of strategyName decorators =
     \<lparr>opt_PaymentMethod = ''credit_card'', PaymentStrategy = strategyName,
      EnabledDecorators = decorators, opt_DiscountCode = [], UseLoyaltyPoints = 0,
      opt_Metadata = Map.empty\<rparr>"

text \<open>
  A card behind a fraud decorator with a maximum risk score of 40: an amount above 5000
  scores at least 50 and is rejected.
\<close>

definition fraud_guarded :: payment where
  "fraud_guarded = NewFraudDetectionDecorator card
                     \<lparr>MaxRiskScore = 40, VelocityCheckWindow = Hour,
                      MaxTransactionsPerWindow = 10, CustomerID = ''cust-1''\<rparr>"

definition tax10 :: TaxConfig where
  "tax10 = \<lparr>Region = ''DEFAULT'', TaxRates = Map.empty, DefaultRate = 10\<rparr>"

definition points100 :: LoyaltyPointsConfig where
  "points100 = \<lparr>AvailablePoints = 500, PointsToRedeem = 100, PointsToCurrencyRatio = 100,
                 MaxRedemptionPercentage = 50\<rparr>"




text \<open>The facade with the maximum risk score lowered to 40.\<close>

definition strict_facade :: CheckoutFacade where
  "strict_facade = \<lparr>config = cfg0\<lparr>FraudDetection_MaxRiskScore := 40\<rparr>,
                     validators = validators0\<rparr>"

section \<open>Properties\<close>

subsection \<open>Basic facts about the environment\<close>

lemma now_invoked [simp]: "now (invoked p amount w) = now w"
  by (simp add: invoked_def)

lemma Discount_expired_invoked [simp]:
  "Discount_expired d (invoked p amount w) = Discount_expired d w"
  by (simp add: Discount_expired_def)

lemmas base_eval =
  invoked_def CreditCardPayment_Process_def ctx_Err_def AmountValidator_Validate_def
  time_Sleep_def NewID_def Let_def

subsection \<open>Discount decorator\<close>

lemma calculateDiscount_percentage_10:
  assumes "DiscountType d = ''percentage''" and "DiscountValue d = 10"
    and "MaxDiscount d \<le> 0 \<or> 10 \<le> MaxDiscount d"
  shows "calculateDiscount d 100 = 10"
  using assms by (auto simp: calculateDiscount_def Let_def)

lemma calculateDiscount_fixed_20:
  assumes "DiscountType d = ''fixed''" and "DiscountValue d = 20"
    and "MaxDiscount d \<le> 0 \<or> 20 \<le> MaxDiscount d"
  shows "calculateDiscount d 100 = 20"
  using assms by (auto simp: calculateDiscount_def Let_def)

lemma Process_Discount_expired:
  assumes "Discount_expired d w"
  shows "Process (DiscountDecorator wrapped d) ctx amount w =
           (Inl (NewValidationError (Text ''discount code has expired'')),
            DiscountDecorator wrapped d, invoked (DiscountDecorator wrapped d) amount w)"
  using assms by (simp add: Let_def)

lemma Process_Discount_success:
  assumes "\<not> Discount_expired d w" and "MinAmount d \<le> amount"
    and "Process wrapped ctx (Discount_finalAmount d amount)
           (invoked (DiscountDecorator wrapped d) amount w) = (Inr r, wrapped', w')"
  shows "Process (DiscountDecorator wrapped d) ctx amount w =
           (Inr (Discount_result d amount r), DiscountDecorator wrapped' d, w')"
  using assms by (simp add: Let_def)

text \<open>
  C5. A discount decorator whose minimum amount and maximum discount do not bind, whose
  code has not expired and whose wrapped payment succeeds on the reduced amount: 10 percent
  off 100.00 gives a result with \<open>ProcessedAmount = 90.00\<close>, a fixed discount of 20.00 off
  100.00 gives \<open>ProcessedAmount = 80.00\<close>. When the expiry date is set and has passed,
  \<open>Process\<close> returns an error for every amount, and the wrapped payment is not called (the
  environment only gains the record of the decorator's own call).
\<close>

theorem C5_discount_amounts_and_expiry:
  "(DiscountType d = ''percentage'' \<and> DiscountValue d = 10 \<and> MinAmount d \<le> 100 \<and>
    (MaxDiscount d \<le> 0 \<or> 10 \<le> MaxDiscount d) \<and> \<not> Discount_expired d w \<and>
    Process wrapped ctx 90 (invoked (DiscountDecorator wrapped d) 100 w) = (Inr r, wrapped', w')
    \<longrightarrow> (\<exists>r'. Process (DiscountDecorator wrapped d) ctx 100 w =
                 (Inr r', DiscountDecorator wrapped' d, w') \<and> ProcessedAmount r' = 90))
   \<and>
   (DiscountType d = ''fixed'' \<and> DiscountValue d = 20 \<and> MinAmount d \<le> 100 \<and>
    (MaxDiscount d \<le> 0 \<or> 20 \<le> MaxDiscount d) \<and> \<not> Discount_expired d w \<and>
    Process wrapped ctx 80 (invoked (DiscountDecorator wrapped d) 100 w) = (Inr r, wrapped', w')
    \<longrightarrow> (\<exists>r'. Process (DiscountDecorator wrapped d) ctx 100 w =
                 (Inr r', DiscountDecorator wrapped' d, w') \<and> ProcessedAmount r' = 80))
   \<and>
   (Discount_expired d w
    \<longrightarrow> (\<exists>e. Process (DiscountDecorator wrapped d) ctx amount w =
                 (Inl e, DiscountDecorator wrapped d,
                  invoked (DiscountDecorator wrapped d) amount w)))"
proof (intro conjI impI)
  assume a: "DiscountType d = ''percentage'' \<and> DiscountValue d = 10 \<and> MinAmount d \<le> 100 \<and>
    (MaxDiscount d \<le> 0 \<or> 10 \<le> MaxDiscount d) \<and> \<not> Discount_expired d w \<and>
    Process wrapped ctx 90 (invoked (DiscountDecorator wrapped d) 100 w) = (Inr r, wrapped', w')"
  then have "calculateDiscount d 100 = 10"
    by (simp add: calculateDiscount_percentage_10)
  then have f: "Discount_finalAmount d 100 = 90"
    by (simp add: Discount_finalAmount_def Let_def)
  with a have "Process (DiscountDecorator wrapped d) ctx 100 w =
      (Inr (Discount_result d 100 r), DiscountDecorator wrapped' d, w')"
    by (simp add: Process_Discount_success)
  moreover have "ProcessedAmount (Discount_result d 100 r) = 90"
    using f by (simp add: Discount_result_def)
  ultimately show "\<exists>r'. Process (DiscountDecorator wrapped d) ctx 100 w =
      (Inr r', DiscountDecorator wrapped' d, w') \<and> ProcessedAmount r' = 90"
    by blast
next
  assume a: "DiscountType d = ''fixed'' \<and> DiscountValue d = 20 \<and> MinAmount d \<le> 100 \<and>
    (MaxDiscount d \<le> 0 \<or> 20 \<le> MaxDiscount d) \<and> \<not> Discount_expired d w \<and>
    Process wrapped ctx 80 (invoked (DiscountDecorator wrapped d) 100 w) = (Inr r, wrapped', w')"
  then have "calculateDiscount d 100 = 20"
    by (simp add: calculateDiscount_fixed_20)
  then have f: "Discount_finalAmount d 100 = 80"
    by (simp add: Discount_finalAmount_def Let_def)
  with a have "Process (DiscountDecorator wrapped d) ctx 100 w =
      (Inr (Discount_result d 100 r), DiscountDecorator wrapped' d, w')"
    by (simp add: Process_Discount_success)
  moreover have "ProcessedAmount (Discount_result d 100 r) = 80"
    using f by (simp add: Discount_result_def)
  ultimately show "\<exists>r'. Process (DiscountDecorator wrapped d) ctx 100 w =
      (Inr r', DiscountDecorator wrapped' d, w') \<and> ProcessedAmount r' = 80"
    by blast
next
  assume "Discount_expired d w"
  then show "\<exists>e. Process (DiscountDecorator wrapped d) ctx amount w =
      (Inl e, DiscountDecorator wrapped d, invoked (DiscountDecorator wrapped d) amount w)"
    by (simp add: Process_Discount_expired)
qed

theorem C5_discount_witness:
  "(\<exists>r' w'. Process (DiscountDecorator card percent10) ctx0 100 w0 =
       (Inr r', DiscountDecorator card percent10, w') \<and> ProcessedAmount r' = 90) \<and>
   (\<exists>r' w'. Process (DiscountDecorator card fixed20) ctx0 100 w0 =
       (Inr r', DiscountDecorator card fixed20, w') \<and> ProcessedAmount r' = 80) \<and>
   (\<exists>e. Process (DiscountDecorator card expired10) ctx0 100 w0 =
       (Inl e, DiscountDecorator card expired10,
        invoked (DiscountDecorator card expired10) 100 w0))"
proof -
  obtain r1 w1 where p1:
    "Process card ctx0 90 (invoked (DiscountDecorator card percent10) 100 w0) = (Inr r1, card, w1)"
    by (simp add: card_def ctx0_def w0_def base_eval)
  obtain r2 w2 where p2:
    "Process card ctx0 80 (invoked (DiscountDecorator card fixed20) 100 w0) = (Inr r2, card, w2)"
    by (simp add: card_def ctx0_def w0_def base_eval)
  have u1: "\<not> Discount_expired percent10 w0" and u2: "\<not> Discount_expired fixed20 w0"
    and e3: "Discount_expired expired10 w0"
    by (simp_all add: Discount_expired_def IsZero_def percent10_def fixed20_def expired10_def w0_def)
  have c1: "DiscountType percent10 = ''percentage'' \<and> DiscountValue percent10 = 10 \<and>
      MinAmount percent10 \<le> 100 \<and> (MaxDiscount percent10 \<le> 0 \<or> 10 \<le> MaxDiscount percent10)"
    by (simp add: percent10_def)
  have c2: "DiscountType fixed20 = ''fixed'' \<and> DiscountValue fixed20 = 20 \<and>
      MinAmount fixed20 \<le> 100 \<and> (MaxDiscount fixed20 \<le> 0 \<or> 20 \<le> MaxDiscount fixed20)"
    by (simp add: fixed20_def)
  from C5_discount_amounts_and_expiry
         [where d = percent10 and w = w0 and wrapped = card and ctx = ctx0 and r = r1
            and wrapped' = card and w' = w1] c1 u1 p1
  have g1: "\<exists>r' w'. Process (DiscountDecorator card percent10) ctx0 100 w0 =
       (Inr r', DiscountDecorator card percent10, w') \<and> ProcessedAmount r' = 90"
    by blast
  from C5_discount_amounts_and_expiry
         [where d = fixed20 and w = w0 and wrapped = card and ctx = ctx0 and r = r2
            and wrapped' = card and w' = w2] c2 u2 p2
  have g2: "\<exists>r' w'. Process (DiscountDecorator card fixed20) ctx0 100 w0 =
       (Inr r', DiscountDecorator card fixed20, w') \<and> ProcessedAmount r' = 80"
    by blast
  from C5_discount_amounts_and_expiry
         [where d = expired10 and w = w0 and wrapped = card and ctx = ctx0 and amount = 100] e3
  have g3: "\<exists>e. Process (DiscountDecorator card expired10) ctx0 100 w0 =
       (Inl e, DiscountDecorator card expired10,
        invoked (DiscountDecorator card expired10) 100 w0)"
    by blast
  from g1 g2 g3 show ?thesis by blast
qed

subsection \<open>The record of invocations\<close>

lemma invocations_calculateRiskScore:
  "calculateRiskScore a w = (s, w') \<Longrightarrow> invocations w' = invocations w"
  by (auto simp: calculateRiskScore_def rand_Intn_def Let_def)

lemma invocations_geolocationCheck:
  "geolocationCheck w = (e, w') \<Longrightarrow> invocations w' = invocations w"
  by (auto simp: geolocationCheck_def rand_Intn_def Let_def split: if_splits)

lemma Process_invocations:
  "Process p ctx a w = (res, p', w') \<Longrightarrow>
     \<exists>inner. invocations w' = invocations w @ (p, a) # inner \<and> (\<forall>c\<in>set inner. size (fst c) < size p)"
proof (induction p arbitrary: a w res p' w')
  case (CreditCardPayment x1 x2 x3 x4)
  then show ?case
    by (auto simp: Let_def CreditCardPayment_Process_def invoked_def time_Sleep_def NewID_def
        split: option.splits prod.splits)
next
  case (PayPalPayment x1 x2)
  then show ?case 
    by (auto simp: Let_def PayPalPayment_Process_def invoked_def time_Sleep_def NewID_def
        split: option.splits prod.splits)
next
  case (CryptoPayment x1 x2)
  then show ?case
    by (auto simp: Let_def CryptoPayment_Process_def invoked_def time_Sleep_def NewID_def
        split: option.splits prod.splits)
next
  case (DiscountDecorator q d)
  let ?w = "invoked (DiscountDecorator q d) a w"
  show ?case
  proof (cases "Discount_expired d w \<or> a < MinAmount d")
    case True
    with DiscountDecorator.prems have "w' = ?w"
      by (auto simp: Let_def split: if_splits)
    then show ?thesis by (simp add: invoked_def)
  next
    case False
    obtain r q' w1 where pq: "Process q ctx (Discount_finalAmount d a) ?w = (r, q', w1)"
      by (cases "Process q ctx (Discount_finalAmount d a) ?w") auto
    from DiscountDecorator.IH[OF pq] obtain inner where
      i: "invocations w1 = invocations ?w @ (q, Discount_finalAmount d a) # inner"
      and s: "\<forall>c\<in>set inner. size (fst c) < size q" by blast
    have "w' = w1" using DiscountDecorator.prems False pq
      by (auto simp: Let_def split: sum.splits)
    with i s show ?thesis
      by (auto simp: invoked_def intro!: exI[of _ "(q, Discount_finalAmount d a) # inner"])
  qed
next
  case (CashbackDecorator q c)
  let ?w = "invoked (CashbackDecorator q c) a w"
  obtain r q' w1 where pq: "Process q ctx a ?w = (r, q', w1)"
    by (cases "Process q ctx a ?w") auto
  from CashbackDecorator.IH[OF pq] obtain inner where
    i: "invocations w1 = invocations ?w @ (q, a) # inner"
    and s: "\<forall>c\<in>set inner. size (fst c) < size q" by blast
  have "w' = w1" using CashbackDecorator.prems pq
    by (auto simp: Let_def split: sum.splits)
  with i s show ?case
    by (auto simp: invoked_def intro!: exI[of _ "(q, a) # inner"])
next
  case (FraudDetectionDecorator q f h)
  let ?w = "invoked (FraudDetectionDecorator q f h) a w"
  obtain score w1 where rs: "calculateRiskScore a ?w = (score, w1)"
    by (cases "calculateRiskScore a ?w") auto
  obtain ge w2 where ge: "geolocationCheck w1 = (ge, w2)"
    by (cases "geolocationCheck w1") auto
  have i1: "invocations w1 = invocations ?w" using rs by (rule invocations_calculateRiskScore)
  have i2: "invocations w2 = invocations ?w" using ge i1 by (simp add: invocations_geolocationCheck)
  show ?case
  proof (cases "score > MaxRiskScore f \<or> velocityCheck f h w1 \<noteq> None \<or> ge \<noteq> None")
    case True
    with FraudDetectionDecorator.prems rs ge have "w' = w1 \<or> w' = w2"
      by (auto simp: Let_def split: if_splits option.splits)
    with i1 i2 show ?thesis by (auto simp: invoked_def)
  next
    case False
    obtain r q' w3 where pq: "Process q ctx a w2 = (r, q', w3)"
      by (cases "Process q ctx a w2") auto
    from FraudDetectionDecorator.IH[OF pq] obtain inner where
      i: "invocations w3 = invocations w2 @ (q, a) # inner"
      and s: "\<forall>c\<in>set inner. size (fst c) < size q" by blast
    have "w' = w3" using FraudDetectionDecorator.prems False pq rs ge
      by (auto simp: Let_def split: sum.splits)
    with i s i2 show ?thesis
      by (auto simp: invoked_def intro!: exI[of _ "(q, a) # inner"])
  qed
next
  case (TaxDecorator q t rate)
  let ?w = "invoked (TaxDecorator q t rate) a w"
  obtain r q' w1 where pq: "Process q ctx (Tax_totalAmount rate a) ?w = (r, q', w1)"
    by (cases "Process q ctx (Tax_totalAmount rate a) ?w") auto
  from TaxDecorator.IH[OF pq] obtain inner where
    i: "invocations w1 = invocations ?w @ (q, Tax_totalAmount rate a) # inner"
    and s: "\<forall>c\<in>set inner. size (fst c) < size q" by blast
  have "w' = w1" using TaxDecorator.prems pq
    by (auto simp: Let_def split: sum.splits)
  with i s show ?case
    by (auto simp: invoked_def intro!: exI[of _ "(q, Tax_totalAmount rate a) # inner"])
next
  case (LoyaltyPointsDecorator q l)
  let ?w = "invoked (LoyaltyPointsDecorator q l) a w"
  show ?case
  proof (cases "Loyalty_discount l > Loyalty_maxRedemption l a")
    case True
    with LoyaltyPointsDecorator.prems have "w' = ?w"
      by (auto simp: Let_def split: if_splits)
    then show ?thesis by (simp add: invoked_def)
  next
    case False
    obtain r q' w1 where pq: "Process q ctx (Loyalty_finalAmount l a) ?w = (r, q', w1)"
      by (cases "Process q ctx (Loyalty_finalAmount l a) ?w") auto
    from LoyaltyPointsDecorator.IH[OF pq] obtain inner where
      i: "invocations w1 = invocations ?w @ (q, Loyalty_finalAmount l a) # inner"
      and s: "\<forall>c\<in>set inner. size (fst c) < size q" by blast
    have "w' = w1" using LoyaltyPointsDecorator.prems False pq
      by (auto simp: Let_def split: sum.splits)
    with i s show ?thesis
      by (auto simp: invoked_def intro!: exI[of _ "(q, Loyalty_finalAmount l a) # inner"])
  qed
qed

subsection \<open>Split strategy\<close>










subsection \<open>Deferred strategy\<close>

lemma calls_to_Process:
  assumes "Process p ctx a w1 = (res, p', w')" and "invocations w1 = invocations w"
  shows "calls_to p w w' = [a]"
proof -
  from Process_invocations[OF assms(1)] obtain inner where
    i: "invocations w' = invocations w1 @ (p, a) # inner"
    and s: "\<forall>c\<in>set inner. size (fst c) < size p" by blast
  from s have "filter (\<lambda>c. fst c = p) inner = []"
    by (auto simp: filter_empty_conv)
  with i assms(2) show ?thesis by (simp add: calls_to_def)
qed

lemma AmountValidator_Validate_ok:
  "minimum \<le> amount \<Longrightarrow> amount \<le> maximum \<Longrightarrow> 0 \<le> amount \<Longrightarrow>
     AmountValidator_Validate amount minimum maximum = None"
  by (simp add: AmountValidator_Validate_def)

lemma CreateDeferredSchedule_first:
  assumes "1 \<le> installments"
  shows "\<exists>schedule rest.
           CreateDeferredSchedule amount installments interestRate w =
             (Inr schedule, snd (NewID w)) \<and>
           TotalAmount schedule = amount \<and>
           Payments schedule =
             \<lparr>InstallmentNumber = 1,
              inst_Amount = amount * (1 + interestRate / 100) / real_of_int installments,
              DueDate = [], Status = ''pending''\<rparr> # rest"
proof -
  have "[0..installments - 1] = 0 # [1..installments - 1]"
    using assms by (simp add: upto_rec1)
  then show ?thesis using assms
    by (simp add: CreateDeferredSchedule_def Let_def split: prod.splits)
qed

text \<open>
  C4 (amended). For a deferred strategy with at least one installment and a non-negative
  amount within its range, \<open>Execute\<close> calls \<open>Process\<close> on the payment exactly once, with
  the first installment \<open>amount * (1 + interestRate / 100) / installments\<close>; a successful
  result has \<open>Amount\<close> and \<open>ProcessedAmount\<close> equal to that installment and
  \<open>OriginalAmount\<close> equal to the schedule total \<open>amount\<close>, which the metadata records
  together with the number of remaining installments; with three installments and no
  interest the installment is \<open>amount / 3\<close>.
\<close>

theorem C4_deferred_first_installment:
  assumes "1 \<le> installments" and "0 \<le> amount" and "minAmount \<le> amount" and "amount \<le> maxAmount"
    and "Execute (DeferredPaymentStrategy minAmount maxAmount installments interestRate)
           ctx payment amount w = (res, s', payment', w')"
  shows "calls_to payment w w' = [amount * (1 + interestRate / 100) / real_of_int installments] \<and>
         (\<forall>result. res = Inr result \<longrightarrow>
            Amount result = amount * (1 + interestRate / 100) / real_of_int installments \<and>
            ProcessedAmount result = amount * (1 + interestRate / 100) / real_of_int installments \<and>
            OriginalAmount result = amount \<and>
            Metadata result ''total_amount'' = Some (VFloat amount) \<and>
            Metadata result ''remaining_installments'' = Some (VInt (installments - 1))) \<and>
         (installments = 3 \<and> interestRate = 0 \<longrightarrow>
            amount * (1 + interestRate / 100) / real_of_int installments = amount / 3)"
proof -
  let ?first = "amount * (1 + interestRate / 100) / real_of_int installments"
  let ?w1 = "snd (NewID w)"
  from CreateDeferredSchedule_first[OF assms(1), of amount interestRate w]
  obtain schedule rest where
    cs: "CreateDeferredSchedule amount installments interestRate w = (Inr schedule, ?w1)"
    and ta: "TotalAmount schedule = amount"
    and ps: "Payments schedule =
      \<lparr>InstallmentNumber = 1, inst_Amount = ?first, DueDate = [], Status = ''pending''\<rparr> # rest"
    by blast
  have v: "AmountValidator_Validate amount minAmount maxAmount = None"
    using assms(2,3,4) by (simp add: AmountValidator_Validate_ok)
  have inv1: "invocations ?w1 = invocations w" by (simp add: NewID_def)
  obtain r p1 w2 where pr: "Process payment ctx ?first ?w1 = (r, p1, w2)"
    by (cases "Process payment ctx ?first ?w1") auto
  have ex: "Deferred_Execute minAmount maxAmount installments interestRate ctx payment amount w =
      (case r of
         Inl err \<Rightarrow> Inl (Wrap err ErrCodePaymentFailed (Text ''deferred payment processing failed''))
       | Inr result \<Rightarrow> Inr (Deferred_result schedule installments interestRate amount ?first result),
       p1, w2)"
    using v cs ps pr by (simp add: Deferred_Execute_def Let_def split: sum.splits)
  with assms(5) have w': "w' = w2"
    and res: "res = (case r of
         Inl err \<Rightarrow> Inl (Wrap err ErrCodePaymentFailed (Text ''deferred payment processing failed''))
       | Inr result \<Rightarrow> Inr (Deferred_result schedule installments interestRate amount ?first result))"
    by auto
  have c: "calls_to payment w w' = [?first]"
    using calls_to_Process[OF pr inv1] w' by simp
  have a: "\<forall>result. res = Inr result \<longrightarrow>
            Amount result = ?first \<and> ProcessedAmount result = ?first \<and>
            OriginalAmount result = amount \<and>
            Metadata result ''total_amount'' = Some (VFloat amount) \<and>
            Metadata result ''remaining_installments'' = Some (VInt (installments - 1))"
    using res ta by (auto simp: Deferred_result_def split: sum.splits)
  show ?thesis using c a by simp
qed

subsection \<open>Strategies on concrete inputs\<close>



theorem C4_deferred_witness:
  "calls_to card w0
     (snd (snd (snd (Execute (DeferredPaymentStrategy 100 10000 3 0) ctx0 card 300 w0)))) = [100] \<and>
   map_sum id Amount (fst (Execute (DeferredPaymentStrategy 100 10000 3 0) ctx0 card 300 w0)) =
     Inr 100 \<and>
   map_sum id OriginalAmount
     (fst (Execute (DeferredPaymentStrategy 100 10000 3 0) ctx0 card 300 w0)) = Inr 300"
proof -
  let ?E = "Execute (DeferredPaymentStrategy 100 10000 3 0) ctx0 card 300 w0"
  have e: "?E = (fst ?E, fst (snd ?E), fst (snd (snd ?E)), snd (snd (snd ?E)))" by simp
  have ok: "\<not> isl (fst ?E)"
    by (simp add: Deferred_Execute_def CreateDeferredSchedule_def upto_rec1 card_def ctx0_def w0_def
        base_eval split: prod.splits)
  from C4_deferred_first_installment[of 3 300 100 10000 0 ctx0 card w0, OF _ _ _ _ e]
  have "calls_to card w0 (snd (snd (snd ?E))) = [100] \<and>
        (\<forall>result. fst ?E = Inr result \<longrightarrow>
            Amount result = 100 \<and> ProcessedAmount result = 100 \<and> OriginalAmount result = 300 \<and>
            Metadata result ''total_amount'' = Some (VFloat 300) \<and>
            Metadata result ''remaining_installments'' = Some (VInt 2))"
    by simp
  with ok show ?thesis by (cases "fst ?E") auto
qed

text \<open>
  The claim as stated, for every amount within the range, fails for a negative amount
  inside a range that starts below zero: the amount validator rejects it and \<open>Process\<close>
  is never called.
\<close>

theorem C4_deferred_counterexample:
  "(-10::real) \<le> -5 \<and> (-5::real) \<le> 10 \<and>
   isl (fst (Execute (DeferredPaymentStrategy (-10) 10 3 0) ctx0 card (-5) w0)) \<and>
   calls_to card w0
     (snd (snd (snd (Execute (DeferredPaymentStrategy (-10) 10 3 0) ctx0 card (-5) w0)))) = []"
  by (simp add: Deferred_Execute_def AmountValidator_Validate_def calls_to_def)



subsection \<open>Error classification and the retry loop\<close>

lemma IsErrorCode_AppError [simp]: "IsErrorCode (AppError c m e) code = (c = code)"
  by (simp add: IsErrorCode_def)

lemma IsErrorCode_RuntimePanic [simp]: "IsErrorCode (RuntimePanic m) code = False"
  by (simp add: IsErrorCode_def)

lemma IsErrorCode_Wrap: "IsErrorCode (Wrap err c m) code = (c = code)"
  by (simp add: Wrap_def)

lemma IsErrorCode_New: "IsErrorCode (New c m) code = (c = code)"
  by (simp add: New_def)

lemma executeWithRetry_loop_aborts:
  assumes "Execute s ctx p amount
             (if attempt > 0 then time_Sleep (Payment_RetryDelay cfg) w else w) =
             (Inl err, s', p', w')"
    and "IsErrorCode err ErrCodeFraudDetected \<or> IsErrorCode err ErrCodeInvalidPayment"
  shows "executeWithRetry_loop cfg (attempt # attempts) lastErr s ctx p amount w = (Inl err, w')"
  using assms by (cases err) (auto simp: Let_def)

lemmas fraud_eval =
  fraud_guarded_def NewFraudDetectionDecorator_def calculateRiskScore_def rand_Intn_def
  NewFraudDetectedError_def New_def Wrap_def

lemma AmountValidator_Validate_error:
  "AmountValidator_Validate amount lo hi = Some err \<Longrightarrow> \<not> IsErrorCode err code"
  by (auto simp: AmountValidator_Validate_def IsErrorCode_def split: if_splits)

lemma Split_validateParts_error:
  "Split_validateParts items i = Some err \<Longrightarrow> IsErrorCode err code = (code = ErrCodeValidation)"
  by (induction items arbitrary: i)
     (auto simp: NewValidationError_def IsErrorCode_New split: if_splits)

lemma Split_processParts_error:
  "Split_processParts ctx items i acc tot w = (Inl err, items', w') \<Longrightarrow>
     IsErrorCode err code = (code = ErrCodePaymentFailed)"
proof (induction items arbitrary: i acc tot w items' w')
  case Nil
  then show ?case by simp
next
  case (Cons item items)
  obtain r q w1 where p: "Process (item_Payment item) ctx (item_Amount item) w = (r, q, w1)"
    by (cases "Process (item_Payment item) ctx (item_Amount item) w") auto
  show ?case
  proof (cases r)
    case (Inl e)
    with Cons.prems p show ?thesis by (auto simp: IsErrorCode_Wrap)
  next
    case (Inr res)
    obtain rr its w2 where rest:
      "Split_processParts ctx items (i + 1) (acc @ [res]) (tot + item_Amount item) w1 = (rr, its, w2)"
      by (cases "Split_processParts ctx items (i + 1) (acc @ [res]) (tot + item_Amount item) w1") auto
    with Cons.prems p Inr have "rr = Inl err" by simp
    with rest Cons.IH show ?thesis by blast
  qed
qed


lemma Instant_Execute_error:
  assumes "Instant_Execute lo hi ctx p amount w = (Inl err, p', w')"
  shows "\<not> IsErrorCode err ErrCodeFraudDetected \<and> \<not> IsErrorCode err ErrCodeInvalidPayment"
proof (cases "AmountValidator_Validate amount lo hi")
  case (Some verr)
  with assms have "err = verr" by (simp add: Instant_Execute_def)
  with Some show ?thesis by (simp add: AmountValidator_Validate_error)
next
  case None
  obtain r q w1 where p: "Process p ctx amount w = (r, q, w1)"
    by (cases "Process p ctx amount w") auto
  with assms None show ?thesis
    by (cases r) (auto simp: Instant_Execute_def IsErrorCode_Wrap)
qed


lemma Deferred_Execute_error:
  assumes "Deferred_Execute lo hi n rate ctx p amount w = (Inl err, p', w')"
  shows "\<not> IsErrorCode err ErrCodeFraudDetected \<and> \<not> IsErrorCode err ErrCodeInvalidPayment"
proof (cases "AmountValidator_Validate amount lo hi")
  case (Some verr)
  with assms have "err = verr" by (simp add: Deferred_Execute_def)
  with Some show ?thesis by (simp add: AmountValidator_Validate_error)
next
  case None
  obtain sr w1 where cs: "CreateDeferredSchedule amount n rate w = (sr, w1)"
    by (cases "CreateDeferredSchedule amount n rate w") auto
  show ?thesis
  proof (cases sr)
    case (Inl panic)
    with cs have "panic = RuntimePanic (Text ''makeslice: cap out of range'')"
      by (auto simp: CreateDeferredSchedule_def Let_def split: prod.splits if_splits)
    with assms None cs Inl show ?thesis by (auto simp: Deferred_Execute_def)
  next
    case (Inr schedule)
    show ?thesis
    proof (cases "Payments schedule")
      case Nil
      with assms None cs Inr show ?thesis by (auto simp: Deferred_Execute_def)
    next
      case (Cons first rest)
      obtain r q w2 where p: "Process p ctx (inst_Amount first) w1 = (r, q, w2)"
        by (cases "Process p ctx (inst_Amount first) w1") auto
      with assms None cs Inr Cons show ?thesis
        by (cases r) (auto simp: Deferred_Execute_def IsErrorCode_Wrap Let_def)
    qed
  qed
qed

lemma Split_Execute_error:
  assumes "Split_Execute items ctx amount w = (Inl err, items', w')"
  shows "\<not> IsErrorCode err ErrCodeFraudDetected \<and> \<not> IsErrorCode err ErrCodeInvalidPayment"
proof (cases "Split_ValidateAmount items amount")
  case (Some verr)
  with assms have e: "err = verr" by (simp add: Split_Execute_def)
  from Some have "\<And>code. IsErrorCode verr code = (code = ErrCodeValidation)"
    by (auto simp: Split_ValidateAmount_def NewValidationError_def IsErrorCode_New
        Split_validateParts_error split: if_splits)
  with e show ?thesis by simp
next
  case None
  show ?thesis
  proof (cases "Sprintf_2f (Split_sum items) \<noteq> Sprintf_2f amount")
    case True
    with assms None show ?thesis
      by (auto simp: Split_Execute_def Let_def NewValidationError_def IsErrorCode_New)
  next
    case False
    obtain r its w1 where pp: "Split_processParts ctx items 0 [] 0 w = (r, its, w1)"
      by (cases "Split_processParts ctx items 0 [] 0 w") auto
    show ?thesis
    proof (cases r)
      case (Inl e)
      with assms None False pp have "err = e" by (simp add: Split_Execute_def Let_def)
      with Inl pp Split_processParts_error show ?thesis by simp
    next
      case (Inr ok)
      with assms None False pp show ?thesis
        by (cases ok) (auto simp: Split_Execute_def Let_def split: list.splits)
    qed
  qed
qed

text \<open>
  No error that a strategy returns is classified as fraud-detected or invalid-payment:
  an error of \<open>Process\<close> comes back inside a payment-failed envelope, and the
  strategies' own errors are validation errors or plain errors.
\<close>

lemma Execute_error_not_classified:
  assumes "Execute s ctx p amount w = (Inl err, s', p', w')"
  shows "\<not> IsErrorCode err ErrCodeFraudDetected \<and> \<not> IsErrorCode err ErrCodeInvalidPayment"
proof (cases s)
  case (InstantPaymentStrategy lo hi)
  with assms show ?thesis
    by (auto split: prod.splits dest: Instant_Execute_error)
next
  case (DeferredPaymentStrategy lo hi n rate)
  with assms show ?thesis
    by (auto split: prod.splits dest: Deferred_Execute_error)
next
  case (SplitPaymentStrategy items)
  with assms show ?thesis
    by (auto split: prod.splits dest: Split_Execute_error)
qed

subsection \<open>Loyalty decorator and the original amount\<close>






text \<open>
  Every instrument reports the amount it received as \<open>OriginalAmount\<close>, and accepts no
  amount below 1. So a tax decorator directly around an instrument never writes
  \<open>OriginalAmount\<close>: the result carries the taxed amount, whatever the rate and the
  amount.
\<close>

lemma instrument_OriginalAmount:
  assumes "(\<exists>n h e c. p = CreditCardPayment n h e c) \<or> (\<exists>e pw. p = PayPalPayment e pw) \<or>
           (\<exists>a t. p = CryptoPayment a t)"
    and "Process p ctx amount w = (Inr r, p', w')"
  shows "OriginalAmount r = amount \<and> 1 \<le> amount"
  using assms
  by (auto simp: CreditCardPayment_Process_def PayPalPayment_Process_def
      CryptoPayment_Process_def AmountValidator_Validate_def time_Sleep_def NewID_def Let_def
      split: option.splits if_splits prod.splits)

lemma Tax_reports_amount_received:
  assumes "(\<exists>n h e c. p = CreditCardPayment n h e c) \<or> (\<exists>e pw. p = PayPalPayment e pw) \<or>
           (\<exists>a t. p = CryptoPayment a t)"
    and "Process (TaxDecorator p t rate) ctx amount w = (Inr r, p', w')"
  shows "OriginalAmount r = amount + amount * (rate / 100)"
proof -
  let ?w = "invoked (TaxDecorator p t rate) amount w"
  obtain r0 q w1 where pr: "Process p ctx (Tax_totalAmount rate amount) ?w = (r0, q, w1)"
    by (cases "Process p ctx (Tax_totalAmount rate amount) ?w") auto
  with assms(2) obtain r1 where r0: "r0 = Inr r1" and r: "r = Tax_result t rate amount r1"
    by (cases r0) (auto simp: Let_def)
  from instrument_OriginalAmount[OF assms(1) pr[unfolded r0]]
  have "OriginalAmount r1 = Tax_totalAmount rate amount" and "1 \<le> Tax_totalAmount rate amount"
    by simp_all
  then show ?thesis using r by (simp add: Tax_result_def Tax_totalAmount_def Let_def)
qed

text \<open>
  C2. \<open>OriginalAmount\<close> is not always the amount passed to the outermost decorator. The
  instruments set it to the amount they receive, the tax and loyalty decorators write it
  only when it is 0, and the discount decorator overwrites it. A tax of 10 percent around
  a card, called with 100, reports 110; so does a tax around a discount; loyalty points
  around a card report 99. Only with the discount outermost is it the caller's 100.
\<close>

theorem C2_original_amount_of_the_innermost:
  "map_sum id OriginalAmount (fst (Process (NewTaxDecorator card tax10) ctx0 100 w0)) = Inr 110 \<and>
   map_sum id OriginalAmount
     (fst (Process (NewTaxDecorator (DiscountDecorator card percent10) tax10) ctx0 100 w0)) =
     Inr 110 \<and>
   map_sum id OriginalAmount
     (fst (Process (LoyaltyPointsDecorator card points100) ctx0 100 w0)) = Inr 99 \<and>
   map_sum id OriginalAmount
     (fst (Process (DiscountDecorator (NewTaxDecorator card tax10) percent10) ctx0 100 w0)) =
     Inr 100"
  by (simp add: NewTaxDecorator_def tax10_def percent10_def points100_def card_def ctx0_def w0_def
      base_eval Tax_totalAmount_def Tax_result_def Discount_expired_def IsZero_def
      Discount_finalAmount_def calculateDiscount_def Discount_result_def
      Loyalty_discount_def Loyalty_maxRedemption_def Loyalty_finalAmount_def Loyalty_result_def)

subsection \<open>Checkout orchestrator\<close>

lemma validateInventory_items_code:
  "validateInventory_items r items = Some e \<Longrightarrow> IsErrorCode e ErrCodeInventoryError"
  by (induction items)
     (auto simp: IsErrorCode_Wrap NewInventoryError_def IsErrorCode_New split: sum.splits if_splits)

lemma validateInventory_items_shortfall:
  "\<exists>item\<in>set items. \<exists>p. products r (ProductID item) = Some p \<and> Stock p < Quantity item \<Longrightarrow>
     validateInventory_items r items \<noteq> None"
  by (induction items)
     (auto simp: CheckAvailability_def GetProduct_def split: sum.splits option.splits)

text \<open>
  C7. When some cart line asks for more units than the stock of its product in the
  repository, \<open>ProcessOrder\<close> returns the payment-failed envelope of an inventory error,
  with the message of the validation stage, and the repository it returns is the one it
  was given: no stock is modified.
\<close>

theorem C7_insufficient_stock_no_mutation:
  assumes "\<exists>item\<in>set (Items cart). \<exists>p. products r (ProductID item) = Some p \<and> Stock p < Quantity item"
  shows "\<exists>e w'. ProcessOrder f ctx cart customer options r w =
           (Inl (Wrap e ErrCodePaymentFailed (Text ''inventory validation failed'')), cart, r, w') \<and>
         IsErrorCode e ErrCodeInventoryError"
proof -
  from validateInventory_items_shortfall[OF assms]
  obtain e where v: "validateInventory r cart = Some e"
    by (auto simp: validateInventory_def)
  then have "IsErrorCode e ErrCodeInventoryError"
    by (simp add: validateInventory_def validateInventory_items_code)
  with v show ?thesis
    by (auto simp: ProcessOrder_def failOrder_def handleError_def Let_def split: prod.splits)
qed

lemma transactions_UpdateProduct:
  "UpdateProduct r p = Inr r' \<Longrightarrow> transactions r' = transactions r"
  by (auto simp: UpdateProduct_def split: if_splits)

lemma transactions_ReserveStock:
  "transactions (snd (ReserveStock r productID quantity)) = transactions r"
  by (auto simp: ReserveStock_def Let_def dest: transactions_UpdateProduct
      split: sum.splits)

lemma transactions_ReleaseStock:
  "transactions (snd (ReleaseStock r productID quantity)) = transactions r"
  by (auto simp: ReleaseStock_def Let_def dest: transactions_UpdateProduct
      split: sum.splits)

lemma transactions_reserveInventory_items:
  "transactions (snd (reserveInventory_items r items)) = transactions r"
proof (induction items arbitrary: r)
  case Nil
  then show ?case by simp
next
  case (Cons item items)
  obtain e r' where rs: "ReserveStock r (ProductID item) (Quantity item) = (e, r')"
    by (cases "ReserveStock r (ProductID item) (Quantity item)") auto
  then have "transactions r' = transactions r"
    using transactions_ReserveStock[of r "ProductID item" "Quantity item"] by simp
  with rs Cons.IH[of r'] show ?case by (cases e) auto
qed

lemma transactions_rollbackInventory_items:
  "transactions (rollbackInventory_items r items) = transactions r"
  by (induction items arbitrary: r) (simp_all add: transactions_ReleaseStock)

lemma ProcessOrder_error_repository:
  assumes "ProcessOrder f ctx cart customer options r w = (Inl err, cart', r', w')"
  shows "r' = r \<or> r' = snd (reserveInventory r cart) \<or>
         r' = rollbackInventory (snd (reserveInventory r cart)) cart"
  using assms
  by (auto simp: ProcessOrder_def failOrder_def handleError_def completeOrder_def Let_def
      split: prod.splits option.splits sum.splits error.splits)

text \<open>
  C9. Whenever \<open>ProcessOrder\<close> returns an error (a failure at any stage, or a panic of
  the strategy), the transaction store of the repository is unchanged.
\<close>

theorem C9_failed_order_not_persisted:
  assumes "ProcessOrder f ctx cart customer options r w = (Inl err, cart', r', w')"
  shows "transactions r' = transactions r"
  using ProcessOrder_error_repository[OF assms]
  by (auto simp: reserveInventory_def rollbackInventory_def
      transactions_reserveInventory_items transactions_rollbackInventory_items)

lemma createDecorator_now:
  "now w = now w' \<Longrightarrow>
     createDecorator cfg feature p options customer w =
     createDecorator cfg feature p options customer w'"
  by (simp add: createDecorator_def createDiscountDecorator_def)

lemma CreateDecoratorChain_now:
  "now w = now w' \<Longrightarrow>
     CreateDecoratorChain cfg p features options customer w =
     CreateDecoratorChain cfg p features options customer w'"
proof (induction features arbitrary: p)
  case Nil
  then show ?case by simp
next
  case (Cons feature features)
  have e: "createDecorator cfg feature p options customer w =
           createDecorator cfg feature p options customer w'"
    using Cons.prems by (rule createDecorator_now)
  show ?case
    by (simp add: e Cons.IH[OF Cons.prems] cong: sum.case_cong)
qed

lemma applyDecorators_now:
  "now w = now w' \<Longrightarrow>
     applyDecorators cfg p options customer w = applyDecorators cfg p options customer w'"
  unfolding applyDecorators_def by (rule CreateDecoratorChain_now)

lemma CreateStrategy_split:
  "CreateStrategy ''split'' params =
     Inl (NewValidationError (Text ''split strategy must be created with CreateSplitStrategy''))"
  by (simp add: CreateStrategy_def supportedStrategies_def)

lemma executePaymentStrategy_split:
  "PaymentStrategy options = ''split'' \<Longrightarrow>
     executePaymentStrategy cfg ctx p amount options w =
       (Inl (NewValidationError (Text ''split strategy must be created with CreateSplitStrategy'')), w)"
  by (simp add: executePaymentStrategy_def CreateStrategy_split Let_def)

text \<open>
  C10. With the strategy name \<open>split\<close>, \<open>ProcessOrder\<close> returns a payment-failed
  envelope for every facade, context, cart, customer, repository and environment. When
  the inventory stages, the payment creation and the decoration succeed, the envelope is
  the one of the payment-processing stage and wraps the validation error of
  \<open>CreateStrategy\<close>.
\<close>

theorem C10_split_checkout_always_fails:
  assumes "PaymentStrategy options = ''split''"
  shows "(\<exists>e msg r' w'. ProcessOrder f ctx cart customer options r w =
            (Inl (Wrap e ErrCodePaymentFailed msg), cart, r', w')) \<and>
         (validateInventory r cart = None \<and> fst (reserveInventory r cart) = None \<and>
          \<not> isl (createPayment (validators f) options) \<and>
          \<not> isl (applyDecorators (config f) (projr (createPayment (validators f) options))
                   options customer w) \<longrightarrow>
            fst (ProcessOrder f ctx cart customer options r w) =
              Inl (Wrap (NewValidationError
                           (Text ''split strategy must be created with CreateSplitStrategy''))
                     ErrCodePaymentFailed (Text ''payment processing failed'')))"
proof (intro conjI impI)
  show "\<exists>e msg r' w'. ProcessOrder f ctx cart customer options r w =
            (Inl (Wrap e ErrCodePaymentFailed msg), cart, r', w')"
    by (auto simp: ProcessOrder_def failOrder_def handleError_def Let_def
        executePaymentStrategy_split[OF assms] NewValidationError_def New_def
        split: prod.splits option.splits sum.splits)
next
  assume a: "validateInventory r cart = None \<and> fst (reserveInventory r cart) = None \<and>
          \<not> isl (createPayment (validators f) options) \<and>
          \<not> isl (applyDecorators (config f) (projr (createPayment (validators f) options))
                   options customer w)"
  then obtain p where p: "createPayment (validators f) options = Inr p"
    by (cases "createPayment (validators f) options") auto
  obtain e1 r1 where r1: "reserveInventory r cart = (e1, r1)"
    by (cases "reserveInventory r cart") auto
  with a have e1: "e1 = None" by simp
  obtain dp where dp: "applyDecorators (config f) p options customer w = Inr dp"
    using a p by (cases "applyDecorators (config f) p options customer w") auto
  have d: "\<And>ev. applyDecorators (config f) p options customer
                   (notifyEvent ev (snd (NewID w))) = Inr dp"
    using applyDecorators_now[of "notifyEvent ev (snd (NewID w))" w for ev] dp
    by (simp add: notifyEvent_def NewID_def)
  show "fst (ProcessOrder f ctx cart customer options r w) =
      Inl (Wrap (NewValidationError
                   (Text ''split strategy must be created with CreateSplitStrategy''))
             ErrCodePaymentFailed (Text ''payment processing failed''))"
    using a p r1 e1
    by (simp add: ProcessOrder_def failOrder_def handleError_def Let_def case_prod_beta d
        executePaymentStrategy_split[OF assms] NewValidationError_def New_def)
qed

subsection \<open>The orchestrator on concrete inputs\<close>

lemmas order_eval =
  facade0_def cfg0_def validators0_def repo0_def laptop_def john_def cart_of_def options_of_def
  ctx0_def w0_def

theorem C7_insufficient_stock_witness:
  "\<exists>e w'. ProcessOrder facade0 ctx0 (cart_of 11) john (options_of ''instant'' []) repo0 w0 =
      (Inl (Wrap e ErrCodePaymentFailed (Text ''inventory validation failed'')),
       cart_of 11, repo0, w') \<and>
    IsErrorCode e ErrCodeInventoryError"
proof -
  have "\<exists>item\<in>set (Items (cart_of 11)).
          \<exists>p. products repo0 (ProductID item) = Some p \<and> Stock p < Quantity item"
    by (simp add: cart_of_def repo0_def laptop_def)
  from C7_insufficient_stock_no_mutation[OF this] show ?thesis .
qed

theorem C9_failed_order_witness:
  "isl (fst (ProcessOrder facade0 ctx0 (cart_of 1) john (options_of ''split'' []) repo0 w0)) \<and>
   transactions
     (fst (snd (snd (ProcessOrder facade0 ctx0 (cart_of 1) john (options_of ''split'' []) repo0 w0))))
     = transactions repo0"
proof -
  let ?P = "ProcessOrder facade0 ctx0 (cart_of 1) john (options_of ''split'' []) repo0 w0"
  have f: "isl (fst ?P)"
    by (simp add: ProcessOrder_def order_eval NewID_def notifyEvent_def validateInventory_def
        CheckAvailability_def GetProduct_def reserveInventory_def ReserveStock_def
        UpdateProduct_def createPayment_def PaymentConfig_zero_def CreatePayment_def
        supportedTypes_def createCreditCardPayment_def NewCreditCardPayment_def
        applyDecorators_def executePaymentStrategy_def CreateStrategy_def supportedStrategies_def
        failOrder_def handleError_def NewValidationError_def New_def Let_def)
  then have "?P = (Inl (projl (fst ?P)), fst (snd ?P), fst (snd (snd ?P)), snd (snd (snd ?P)))"
    by (metis prod.collapse sum.collapse(1))
  from C9_failed_order_not_persisted[OF this] f show ?thesis by simp
qed

theorem C10_split_checkout_witness:
  "fst (ProcessOrder facade0 ctx0 (cart_of 1) john (options_of ''split'' [''tax'']) repo0 w0) =
     Inl (Wrap (NewValidationError
                  (Text ''split strategy must be created with CreateSplitStrategy''))
            ErrCodePaymentFailed (Text ''payment processing failed''))"
proof -
  have s: "PaymentStrategy (options_of ''split'' [''tax'']) = ''split''"
    by (simp add: options_of_def)
  have v: "validateInventory repo0 (cart_of 1) = None"
    by (simp add: validateInventory_def CheckAvailability_def GetProduct_def order_eval)
  have r: "fst (reserveInventory repo0 (cart_of 1)) = None"
    by (simp add: reserveInventory_def ReserveStock_def GetProduct_def UpdateProduct_def
        order_eval Let_def)
  have p: "createPayment (validators facade0) (options_of ''split'' [''tax'']) = Inr card"
    by (simp add: createPayment_def PaymentConfig_zero_def CreatePayment_def
        supportedTypes_def createCreditCardPayment_def NewCreditCardPayment_def order_eval
        card_def Let_def)
  have d: "\<not> isl (applyDecorators (config facade0)
                    (projr (createPayment (validators facade0) (options_of ''split'' [''tax''])))
                    (options_of ''split'' [''tax'']) john w0)"
    by (simp add: p applyDecorators_def createDecorator_def createTaxDecorator_def order_eval)
  from C10_split_checkout_always_fails
         [OF s, where r = repo0 and cart = "cart_of 1" and f = facade0 and customer = john
            and w = w0 and ctx = ctx0] v r p d
  show ?thesis by simp
qed

text \<open>
  A successful checkout, for comparison: one laptop, the tax decorator applied first and
  the discount around it, the instant strategy. The receipt totals the discounted amount,
  the card is charged the discounted amount plus tax, the cart is cleared, one unit of
  stock is reserved and the completed transaction is stored.
\<close>

lemma ProcessOrder_success_run:
  "map_sum id (\<lambda>rc. (Total rc, rcpt_AppliedDecorators rc, Subtotal rc, Tax rc, Discount rc))
     (fst (ProcessOrder facade0 ctx0 (cart_of 1) john (options_of ''instant'' [''tax'', ''discount''])
             repo0 w0)) = Inr (899991 / 1000, [''tax'', ''discount''], 99999 / 100, 899991 / 10000, 99999 / 1000) \<and>
   Items (fst (snd (ProcessOrder facade0 ctx0 (cart_of 1) john
                      (options_of ''instant'' [''tax'', ''discount'']) repo0 w0))) = [] \<and>
   map_option Stock (products (fst (snd (snd (ProcessOrder facade0 ctx0 (cart_of 1) john
                      (options_of ''instant'' [''tax'', ''discount'']) repo0 w0)))) ''prod-1'') = Some 9 \<and>
   map_option txn_Status (transactions (fst (snd (snd (ProcessOrder facade0 ctx0 (cart_of 1) john
                      (options_of ''instant'' [''tax'', ''discount'']) repo0 w0))))
        ''3f2c9a10-7b1e-4c55-9d0a-5e8f6b7c1d2e'') = Some TransactionStatusCompleted \<and>
   calls_to card w0 (snd (snd (snd (ProcessOrder facade0 ctx0 (cart_of 1) john
                      (options_of ''instant'' [''tax'', ''discount'']) repo0 w0)))) = [9899901 / 10000]"
  by (simp add: ProcessOrder_def order_eval NewID_def notifyEvent_def
        validateInventory_def CheckAvailability_def GetProduct_def reserveInventory_def
        ReserveStock_def UpdateProduct_def createPayment_def PaymentConfig_zero_def
        CreatePayment_def supportedTypes_def createCreditCardPayment_def NewCreditCardPayment_def
        applyDecorators_def createDecorator_def createTaxDecorator_def createDiscountDecorator_def
        NewTaxDecorator_def NewDiscountDecorator_def
        executePaymentStrategy_def CreateStrategy_def supportedStrategies_def
        createInstantStrategy_def param_float_def WithTimeout_def
        executeWithRetry_def upto.simps Instant_Execute_def AmountValidator_Validate_def
        GetTotal_def invoked_def time_Sleep_def calls_to_def card_def
        CreditCardPayment_Process_def ctx_Err_def
        Tax_totalAmount_def Tax_result_def Discount_expired_def IsZero_def
        Discount_finalAmount_def calculateDiscount_def Discount_result_def
        completeOrder_def updateLoyaltyPoints_def metadata_int_def metadata_float_def
        generateReceipt_def CreateTransaction_def Clear_def
        Let_def)

text \<open>
  C1. The retry loop stops at an attempt whose error \<open>IsErrorCode\<close> classifies as
  fraud-detected or invalid-payment (\<open>executeWithRetry_loop_aborts\<close>). The classification
  does not survive the payment-failed wrapping: \<open>IsErrorCode\<close> looks at the first
  \<open>*AppError\<close> of the chain, which after \<open>Wrap\<close> is the envelope. A fraud rejection
  raised by the fraud decorator reaches the loop wrapped by the instant strategy, is not
  recognised (\<open>Execute_error_not_classified\<close>: this holds for every error of every
  strategy), and the payment is processed again on every attempt: with two retries
  configured, \<open>Process\<close> is called three times, by the retry loop alone and within a
  whole \<open>ProcessOrder\<close> call.
\<close>

theorem C1_wrapped_fraud_error_is_retried:
  "fst (executeWithRetry cfg0 (InstantPaymentStrategy 1 10000) ctx0 fraud_guarded 6000 w0) =
     Inl (Wrap (NewFraudDetectedError
                  (Sprintf ''transaction blocked: high fraud risk (score: %d)'' [FInt 50]))
            ErrCodePaymentFailed (Text ''instant payment processing failed'')) \<and>
   calls_to fraud_guarded w0
     (snd (executeWithRetry cfg0 (InstantPaymentStrategy 1 10000) ctx0 fraud_guarded 6000 w0)) =
     [6000, 6000, 6000] \<and>
   fst (ProcessOrder strict_facade ctx0 (cart_of 6) john
          (options_of ''instant'' [''fraud_detection'']) repo0 w0) =
     Inl (Wrap (Wrap (NewFraudDetectedError
                        (Sprintf ''transaction blocked: high fraud risk (score: %d)'' [FInt 50]))
                  ErrCodePaymentFailed (Text ''instant payment processing failed''))
            ErrCodePaymentFailed (Text ''payment processing failed'')) \<and>
   calls_to fraud_guarded w0
     (snd (snd (snd (ProcessOrder strict_facade ctx0 (cart_of 6) john
                       (options_of ''instant'' [''fraud_detection'']) repo0 w0)))) =
     [599994 / 100, 599994 / 100, 599994 / 100] \<and>
   \<not> IsErrorCode (Wrap (NewFraudDetectedError msg) ErrCodePaymentFailed msg')
       ErrCodeFraudDetected \<and>
   \<not> IsErrorCode (Wrap (NewInvalidPaymentError msg) ErrCodePaymentFailed msg')
       ErrCodeInvalidPayment"
proof -
  have a: "fst (executeWithRetry cfg0 (InstantPaymentStrategy 1 10000) ctx0 fraud_guarded 6000 w0) =
     Inl (Wrap (NewFraudDetectedError
                  (Sprintf ''transaction blocked: high fraud risk (score: %d)'' [FInt 50]))
            ErrCodePaymentFailed (Text ''instant payment processing failed'')) \<and>
   calls_to fraud_guarded w0
     (snd (executeWithRetry cfg0 (InstantPaymentStrategy 1 10000) ctx0 fraud_guarded 6000 w0)) =
     [6000, 6000, 6000]"
    by (simp add: executeWithRetry_def cfg0_def Instant_Execute_def AmountValidator_Validate_def
        fraud_eval upto.simps w0_def ctx0_def invoked_def time_Sleep_def calls_to_def Let_def)
  have b: "fst (ProcessOrder strict_facade ctx0 (cart_of 6) john
          (options_of ''instant'' [''fraud_detection'']) repo0 w0) =
     Inl (Wrap (Wrap (NewFraudDetectedError
                        (Sprintf ''transaction blocked: high fraud risk (score: %d)'' [FInt 50]))
                  ErrCodePaymentFailed (Text ''instant payment processing failed''))
            ErrCodePaymentFailed (Text ''payment processing failed'')) \<and>
   calls_to fraud_guarded w0
     (snd (snd (snd (ProcessOrder strict_facade ctx0 (cart_of 6) john
                       (options_of ''instant'' [''fraud_detection'']) repo0 w0)))) =
     [599994 / 100, 599994 / 100, 599994 / 100]"
    by (simp add: ProcessOrder_def strict_facade_def order_eval NewID_def notifyEvent_def
        validateInventory_def CheckAvailability_def GetProduct_def reserveInventory_def
        ReserveStock_def UpdateProduct_def createPayment_def PaymentConfig_zero_def
        CreatePayment_def supportedTypes_def createCreditCardPayment_def NewCreditCardPayment_def
        applyDecorators_def createDecorator_def createFraudDetectionDecorator_def
        executePaymentStrategy_def CreateStrategy_def supportedStrategies_def
        createInstantStrategy_def param_float_def WithTimeout_def
        executeWithRetry_def upto.simps Instant_Execute_def AmountValidator_Validate_def
        GetTotal_def fraud_eval invoked_def time_Sleep_def calls_to_def card_def
        rollbackInventory_def ReleaseStock_def
        failOrder_def handleError_def Let_def)
  have c: "\<not> IsErrorCode (Wrap (NewFraudDetectedError msg) ErrCodePaymentFailed msg')
             ErrCodeFraudDetected \<and>
           \<not> IsErrorCode (Wrap (NewInvalidPaymentError msg) ErrCodePaymentFailed msg')
             ErrCodeInvalidPayment"
    by (simp add: IsErrorCode_Wrap)
  from a b c show ?thesis by simp
qed

end
